theory Spec2Isabelle
  imports Main "HOL-Library.Word"
begin

unbundle bit_operations_syntax

section \<open>Wire values to object types and lengths (of_type_maps.c)\<close>

text \<open>
  The development embeds the functions of \<^verbatim>\<open>Modules/loci/src/of_type_maps.c\<close>.
  A function that writes the wire buffer returns the object handle with the buffer
  updated; every \<^verbatim>\<open>ASSERT\<close> of the source is a branch that returns
  \<open>Inl ASSERT_FAILURE\<close>, and every memory access the source performs without a check
  (a raw pointer read or write, the use of a null buffer pointer) is a branch that
  returns \<open>Inl BAD_ACCESS\<close> where the access leaves the buffer.
\<close>

subsection \<open>Data model\<close>

datatype fault = ASSERT_FAILURE | BAD_ACCESS

type_synonym u8 = "8 word"
type_synonym u16 = "16 word"
type_synonym u32 = "32 word"

type_synonym of_wire_buffer_t = "u8 list"

type_synonym of_version_t = int

text \<open>
  Modelled from the spec: the enumeration \<^verbatim>\<open>of_object_id_t\<close> is declared in the
  loci headers. The constructors are the enumerators that of_type_maps.c names; every
  other enumerator is \<open>OF_OBJECT_OTHER n\<close>.
\<close>

datatype of_object_id_t =
    OF_OBJECT_INVALID
  | OF_ACTION_EXPERIMENTER
  | OF_ACTION_BSN_MIRROR
  | OF_ACTION_BSN_SET_TUNNEL_DST
  | OF_ACTION_NICIRA_DEC_TTL
  | OF_ACTION_ID_EXPERIMENTER
  | OF_ACTION_ID_BSN_MIRROR
  | OF_ACTION_ID_BSN_SET_TUNNEL_DST
  | OF_ACTION_ID_NICIRA_DEC_TTL
  | OF_INSTRUCTION_EXPERIMENTER
  | OF_QUEUE_PROP_EXPERIMENTER
  | OF_TABLE_FEATURE_PROP_EXPERIMENTER
  | OF_METER_BAND_EXPERIMENTER
  | OF_METER_STATS
  | OF_OBJECT_OTHER nat

text \<open>
  Modelled from the spec: the Wire Object Handle (\<^verbatim>\<open>of_object_t\<close>, declared in the
  loci headers): the buffer reference (\<open>None\<close> is the null pointer), the offset of the
  object in the buffer, the protocol version, the object identifier, the total byte
  length and the optional parent handle.
\<close>

datatype of_object_t =
  Of_object
    (wbuf: "of_wire_buffer_t option")
    (obj_offset: nat)
    (version: of_version_t)
    (object_id: of_object_id_t)
    (obj_length: int)
    (parent: "of_object_t option")

definition wbuf_update :: "of_object_t \<Rightarrow> of_wire_buffer_t \<Rightarrow> of_object_t" where
  "wbuf_update obj b =
     Of_object (Some b) (obj_offset obj) (version obj) (object_id obj) (obj_length obj)
       (parent obj)"

text \<open>
  Modelled from the spec: the constants below are declared in the loci headers. Their
  values are those of the OpenFlow wire protocol (the experimenter type code of a TLV,
  the vendor identifiers of Big Switch Networks and Nicira, the wire number of
  version 1.2).
\<close>

definition OF_EXPERIMENTER_TYPE :: int where
  "OF_EXPERIMENTER_TYPE = 0xffff"

definition OF_EXPERIMENTER_ID_BSN :: u32 where
  "OF_EXPERIMENTER_ID_BSN = 0x005c16c7"

definition OF_EXPERIMENTER_ID_NICIRA :: u32 where
  "OF_EXPERIMENTER_ID_NICIRA = 0x00002320"

definition OF_VERSION_1_2 :: of_version_t where
  "OF_VERSION_1_2 = 3"

definition OF_ERROR_NONE :: int where
  "OF_ERROR_NONE = 0"

subsection \<open>The wire buffer\<close>

text \<open>
  Modelled from the spec: the raw accessors \<^verbatim>\<open>buf_u16_get\<close>, \<^verbatim>\<open>buf_u16_set\<close>,
  \<^verbatim>\<open>buf_u32_get\<close> and \<^verbatim>\<open>buf_u32_set\<close> read and write a big-endian integer through a
  pointer into the buffer (here the buffer and an index). They check nothing; an access
  outside the buffer is \<open>BAD_ACCESS\<close>.
\<close>

definition buf_u16_get :: "of_wire_buffer_t \<Rightarrow> nat \<Rightarrow> fault + u16" where
  "buf_u16_get b i =
     (if i + 2 \<le> length b
      then Inr (push_bit 8 (ucast (b ! i)) OR ucast (b ! (i + 1)))
      else Inl BAD_ACCESS)"

definition buf_u16_set :: "of_wire_buffer_t \<Rightarrow> nat \<Rightarrow> u16 \<Rightarrow> fault + of_wire_buffer_t" where
  "buf_u16_set b i v =
     (if i + 2 \<le> length b
      then Inr (b[i := ucast (drop_bit 8 v), i + 1 := ucast v])
      else Inl BAD_ACCESS)"

definition buf_u32_get :: "of_wire_buffer_t \<Rightarrow> nat \<Rightarrow> fault + u32" where
  "buf_u32_get b i =
     (if i + 4 \<le> length b
      then Inr (push_bit 24 (ucast (b ! i)) OR push_bit 16 (ucast (b ! (i + 1)))
                OR push_bit 8 (ucast (b ! (i + 2))) OR ucast (b ! (i + 3)))
      else Inl BAD_ACCESS)"

definition buf_u32_set :: "of_wire_buffer_t \<Rightarrow> nat \<Rightarrow> u32 \<Rightarrow> fault + of_wire_buffer_t" where
  "buf_u32_set b i v =
     (if i + 4 \<le> length b
      then Inr (b[i := ucast (drop_bit 24 v), i + 1 := ucast (drop_bit 16 v),
                  i + 2 := ucast (drop_bit 8 v), i + 3 := ucast v])
      else Inl BAD_ACCESS)"

text \<open>
  Modelled from the spec: the Wire Buffer collaborator (\<^verbatim>\<open>of_wire_buffer_u16_get\<close>
  and its siblings, declared in the loci headers): big-endian, bounds-checked against
  the buffer's extent, fatal on an out-of-range offset.
\<close>

definition of_wire_buffer_u16_get :: "of_wire_buffer_t \<Rightarrow> nat \<Rightarrow> fault + u16" where
  "of_wire_buffer_u16_get b off =
     (if off + 2 \<le> length b then buf_u16_get b off else Inl ASSERT_FAILURE)"

definition of_wire_buffer_u16_set ::
  "of_wire_buffer_t \<Rightarrow> nat \<Rightarrow> u16 \<Rightarrow> fault + of_wire_buffer_t" where
  "of_wire_buffer_u16_set b off v =
     (if off + 2 \<le> length b then buf_u16_set b off v else Inl ASSERT_FAILURE)"

definition of_wire_buffer_u32_get :: "of_wire_buffer_t \<Rightarrow> nat \<Rightarrow> fault + u32" where
  "of_wire_buffer_u32_get b off =
     (if off + 4 \<le> length b then buf_u32_get b off else Inl ASSERT_FAILURE)"

definition of_wire_buffer_u32_set ::
  "of_wire_buffer_t \<Rightarrow> nat \<Rightarrow> u32 \<Rightarrow> fault + of_wire_buffer_t" where
  "of_wire_buffer_u32_set b off v =
     (if off + 4 \<le> length b then buf_u32_set b off v else Inl ASSERT_FAILURE)"

text \<open>
  Modelled from the spec: the Offset Resolver (\<^verbatim>\<open>OF_OBJECT_ABSOLUTE_OFFSET\<close>,
  declared in the loci headers): the object's own position plus the relative offset.
\<close>

definition OF_OBJECT_ABSOLUTE_OFFSET :: "of_object_t \<Rightarrow> nat \<Rightarrow> nat" where
  "OF_OBJECT_ABSOLUTE_OFFSET obj off = obj_offset obj + off"

definition OF_OBJECT_TO_WBUF :: "of_object_t \<Rightarrow> of_wire_buffer_t option" where
  "OF_OBJECT_TO_WBUF obj = wbuf obj"

text \<open>
  Modelled from the spec: \<^verbatim>\<open>OF_OBJECT_BUFFER_INDEX\<close> (declared in the loci headers)
  is the pointer to a byte of the object in its buffer, here the buffer and the
  absolute index. The Offset Resolver fails if the handle has no attached buffer.
\<close>

definition OF_OBJECT_BUFFER_INDEX ::
  "of_object_t \<Rightarrow> nat \<Rightarrow> fault + (of_wire_buffer_t \<times> nat)" where
  "OF_OBJECT_BUFFER_INDEX obj off =
     (case OF_OBJECT_TO_WBUF obj of
        None \<Rightarrow> Inl ASSERT_FAILURE
      | Some b \<Rightarrow> Inr (b, OF_OBJECT_ABSOLUTE_OFFSET obj off))"

subsection \<open>The type resolution tables\<close>

text \<open>
  Modelled from the spec: the Type Resolution Tables and the other static data of the
  loci library that of_type_maps.c reads (generated files outside this source file).
  They are a parameter of every function that looks something up: the map from
  (version, identifier) to the wire type code, per family the map from (version, wire
  type code) to the identifier with the family's item count, the two OXM maps with the
  test \<^verbatim>\<open>OF_OXM_VALID_ID\<close>, and the fixed length of an object by (version,
  identifier).
\<close>

record of_type_maps =
  of_object_to_type_map :: "of_version_t \<Rightarrow> of_object_id_t \<Rightarrow> int"
  of_action_type_to_id :: "of_version_t \<Rightarrow> int \<Rightarrow> of_object_id_t"
  OF_ACTION_ITEM_COUNT :: int
  of_action_id_type_to_id :: "of_version_t \<Rightarrow> int \<Rightarrow> of_object_id_t"
  OF_ACTION_ID_ITEM_COUNT :: int
  of_instruction_type_to_id :: "of_version_t \<Rightarrow> int \<Rightarrow> of_object_id_t"
  OF_INSTRUCTION_ITEM_COUNT :: int
  of_queue_prop_type_to_id :: "of_version_t \<Rightarrow> int \<Rightarrow> of_object_id_t"
  OF_QUEUE_PROP_ITEM_COUNT :: int
  of_table_feature_prop_type_to_id :: "of_version_t \<Rightarrow> int \<Rightarrow> of_object_id_t"
  OF_TABLE_FEATURE_PROP_ITEM_COUNT :: int
  of_meter_band_type_to_id :: "of_version_t \<Rightarrow> int \<Rightarrow> of_object_id_t"
  OF_METER_BAND_ITEM_COUNT :: int
  of_hello_elem_type_to_id :: "of_version_t \<Rightarrow> int \<Rightarrow> of_object_id_t"
  OF_HELLO_ELEM_ITEM_COUNT :: int
  of_oxm_to_object_id :: "int \<Rightarrow> of_version_t \<Rightarrow> of_object_id_t"
  of_object_to_wire_type :: "of_object_id_t \<Rightarrow> of_version_t \<Rightarrow> int"
  OF_OXM_VALID_ID :: "of_object_id_t \<Rightarrow> bool"
  of_object_fixed_len :: "of_version_t \<Rightarrow> of_object_id_t \<Rightarrow> int"

definition OF_OBJECT_FIXED_LENGTH :: "of_type_maps \<Rightarrow> of_object_t \<Rightarrow> int" where
  "OF_OBJECT_FIXED_LENGTH T obj = of_object_fixed_len T (version obj) (object_id obj)"

subsection \<open>TLV16 type functions\<close>

definition TLV16_WIRE_TYPE_OFFSET :: nat where
  "TLV16_WIRE_TYPE_OFFSET = 0"

definition TLV16_WIRE_LENGTH_OFFSET :: nat where
  "TLV16_WIRE_LENGTH_OFFSET = 2"

text \<open>\<^verbatim>\<open>of_tlv16_wire_type_get\<close> has no assertion on the buffer pointer.\<close>

definition of_tlv16_wire_type_get :: "of_object_t \<Rightarrow> fault + int" where
  "of_tlv16_wire_type_get obj =
     (case OF_OBJECT_TO_WBUF obj of
        None \<Rightarrow> Inl BAD_ACCESS
      | Some b \<Rightarrow>
          (case of_wire_buffer_u16_get b (OF_OBJECT_ABSOLUTE_OFFSET obj TLV16_WIRE_TYPE_OFFSET) of
             Inl e \<Rightarrow> Inl e
           | Inr val16 \<Rightarrow> Inr (uint val16)))"

definition OF_ACTION_EXPERIMENTER_ID_OFFSET :: nat where
  "OF_ACTION_EXPERIMENTER_ID_OFFSET = 4"

definition OF_ACTION_EXPERIMENTER_SUBTYPE_OFFSET :: nat where
  "OF_ACTION_EXPERIMENTER_SUBTYPE_OFFSET = 8"

definition extension_action_object_id_get :: "of_object_t \<Rightarrow> fault + of_object_id_t" where
  "extension_action_object_id_get obj =
     (case OF_OBJECT_BUFFER_INDEX obj 0 of
        Inl e \<Rightarrow> Inl e
      | Inr (b, buf) \<Rightarrow>
          (case buf_u32_get b (buf + OF_ACTION_EXPERIMENTER_ID_OFFSET) of
             Inl e \<Rightarrow> Inl e
           | Inr exp_id \<Rightarrow>
               if exp_id = OF_EXPERIMENTER_ID_BSN then
                 (case buf_u32_get b (buf + OF_ACTION_EXPERIMENTER_SUBTYPE_OFFSET) of
                    Inl e \<Rightarrow> Inl e
                  | Inr subtype \<Rightarrow>
                      if subtype = 1 then Inr OF_ACTION_BSN_MIRROR
                      else if subtype = 2 then Inr OF_ACTION_BSN_SET_TUNNEL_DST
                      else Inr OF_ACTION_EXPERIMENTER)
               else if exp_id = OF_EXPERIMENTER_ID_NICIRA then
                 (case buf_u16_get b (buf + OF_ACTION_EXPERIMENTER_SUBTYPE_OFFSET) of
                    Inl e \<Rightarrow> Inl e
                  | Inr subtype \<Rightarrow>
                      if subtype = 18 then Inr OF_ACTION_NICIRA_DEC_TTL
                      else Inr OF_ACTION_EXPERIMENTER)
               else Inr OF_ACTION_EXPERIMENTER))"

definition of_extension_object_id_set ::
  "of_object_t \<Rightarrow> of_object_id_t \<Rightarrow> fault + of_object_t" where
  "of_extension_object_id_set obj oid =
     (case OF_OBJECT_BUFFER_INDEX obj 0 of
        Inl e \<Rightarrow> Inl e
      | Inr (b, buf) \<Rightarrow>
          if oid = OF_ACTION_BSN_MIRROR \<or> oid = OF_ACTION_ID_BSN_MIRROR then
            (case buf_u32_set b (buf + OF_ACTION_EXPERIMENTER_ID_OFFSET)
                    OF_EXPERIMENTER_ID_BSN of
               Inl e \<Rightarrow> Inl e
             | Inr b1 \<Rightarrow>
                 (case buf_u32_set b1 (buf + OF_ACTION_EXPERIMENTER_SUBTYPE_OFFSET) 1 of
                    Inl e \<Rightarrow> Inl e
                  | Inr b2 \<Rightarrow> Inr (wbuf_update obj b2)))
          else if oid = OF_ACTION_BSN_SET_TUNNEL_DST \<or> oid = OF_ACTION_ID_BSN_SET_TUNNEL_DST then
            (case buf_u32_set b (buf + OF_ACTION_EXPERIMENTER_ID_OFFSET)
                    OF_EXPERIMENTER_ID_BSN of
               Inl e \<Rightarrow> Inl e
             | Inr b1 \<Rightarrow>
                 (case buf_u32_set b1 (buf + OF_ACTION_EXPERIMENTER_SUBTYPE_OFFSET) 2 of
                    Inl e \<Rightarrow> Inl e
                  | Inr b2 \<Rightarrow> Inr (wbuf_update obj b2)))
          else if oid = OF_ACTION_NICIRA_DEC_TTL \<or> oid = OF_ACTION_ID_NICIRA_DEC_TTL then
            (case buf_u32_set b (buf + OF_ACTION_EXPERIMENTER_ID_OFFSET)
                    OF_EXPERIMENTER_ID_NICIRA of
               Inl e \<Rightarrow> Inl e
             | Inr b1 \<Rightarrow>
                 (case buf_u16_set b1 (buf + OF_ACTION_EXPERIMENTER_SUBTYPE_OFFSET) 18 of
                    Inl e \<Rightarrow> Inl e
                  | Inr b2 \<Rightarrow> Inr (wbuf_update obj b2)))
          else Inr obj)"

definition of_tlv16_wire_object_id_set ::
  "of_type_maps \<Rightarrow> of_object_t \<Rightarrow> of_object_id_t \<Rightarrow> fault + of_object_t" where
  "of_tlv16_wire_object_id_set T obj oid =
     (case OF_OBJECT_TO_WBUF obj of
        None \<Rightarrow> Inl ASSERT_FAILURE
      | Some b \<Rightarrow>
          (let wire_type = of_object_to_type_map T (version obj) oid in
           if \<not> wire_type \<ge> 0 then Inl ASSERT_FAILURE
           else
             (case of_wire_buffer_u16_set b
                     (OF_OBJECT_ABSOLUTE_OFFSET obj TLV16_WIRE_TYPE_OFFSET)
                     (word_of_int wire_type) of
                Inl e \<Rightarrow> Inl e
              | Inr b' \<Rightarrow>
                  if wire_type = OF_EXPERIMENTER_TYPE
                  then of_extension_object_id_set (wbuf_update obj b') oid
                  else Inr (wbuf_update obj b'))))"

definition extension_action_id_object_id_get :: "of_object_t \<Rightarrow> fault + of_object_id_t" where
  "extension_action_id_object_id_get obj =
     (case OF_OBJECT_BUFFER_INDEX obj 0 of
        Inl e \<Rightarrow> Inl e
      | Inr (b, buf) \<Rightarrow>
          (case buf_u32_get b (buf + OF_ACTION_EXPERIMENTER_ID_OFFSET) of
             Inl e \<Rightarrow> Inl e
           | Inr exp_id \<Rightarrow>
               if exp_id = OF_EXPERIMENTER_ID_BSN then
                 (case buf_u32_get b (buf + OF_ACTION_EXPERIMENTER_SUBTYPE_OFFSET) of
                    Inl e \<Rightarrow> Inl e
                  | Inr subtype \<Rightarrow>
                      if subtype = 1 then Inr OF_ACTION_ID_BSN_MIRROR
                      else if subtype = 2 then Inr OF_ACTION_ID_BSN_SET_TUNNEL_DST
                      else Inr OF_ACTION_ID_EXPERIMENTER)
               else if exp_id = OF_EXPERIMENTER_ID_NICIRA then
                 (case buf_u16_get b (buf + OF_ACTION_EXPERIMENTER_SUBTYPE_OFFSET) of
                    Inl e \<Rightarrow> Inl e
                  | Inr subtype \<Rightarrow>
                      if subtype = 18 then Inr OF_ACTION_ID_NICIRA_DEC_TTL
                      else Inr OF_ACTION_ID_EXPERIMENTER)
               else Inr OF_ACTION_ID_EXPERIMENTER))"

text \<open>
  The tail shared by the seven identifier getters: the range assertion on the wire
  type, the lookup in the family's table, the assertion on the identifier found.
\<close>

definition type_to_id_lookup ::
  "(of_version_t \<Rightarrow> int \<Rightarrow> of_object_id_t) \<Rightarrow> int \<Rightarrow> of_version_t \<Rightarrow> int
     \<Rightarrow> fault + of_object_id_t" where
  "type_to_id_lookup tab item_count ver wire_type =
     (if \<not> (wire_type \<ge> 0 \<and> wire_type < item_count) then Inl ASSERT_FAILURE
      else
        (let oid = tab ver wire_type in
         if \<not> oid \<noteq> OF_OBJECT_INVALID then Inl ASSERT_FAILURE else Inr oid))"

definition of_action_wire_object_id_get ::
  "of_type_maps \<Rightarrow> of_object_t \<Rightarrow> fault + of_object_id_t" where
  "of_action_wire_object_id_get T obj =
     (case of_tlv16_wire_type_get obj of
        Inl e \<Rightarrow> Inl e
      | Inr wire_type \<Rightarrow>
          if wire_type = OF_EXPERIMENTER_TYPE then extension_action_object_id_get obj
          else type_to_id_lookup (of_action_type_to_id T) (OF_ACTION_ITEM_COUNT T)
                 (version obj) wire_type)"

definition of_action_id_wire_object_id_get ::
  "of_type_maps \<Rightarrow> of_object_t \<Rightarrow> fault + of_object_id_t" where
  "of_action_id_wire_object_id_get T obj =
     (case of_tlv16_wire_type_get obj of
        Inl e \<Rightarrow> Inl e
      | Inr wire_type \<Rightarrow>
          if wire_type = OF_EXPERIMENTER_TYPE then extension_action_id_object_id_get obj
          else type_to_id_lookup (of_action_id_type_to_id T) (OF_ACTION_ID_ITEM_COUNT T)
                 (version obj) wire_type)"

definition extension_instruction_object_id_get ::
  "of_object_t \<Rightarrow> fault + (int \<times> of_object_id_t)" where
  "extension_instruction_object_id_get obj = Inr (OF_ERROR_NONE, OF_INSTRUCTION_EXPERIMENTER)"

definition of_instruction_wire_object_id_get ::
  "of_type_maps \<Rightarrow> of_object_t \<Rightarrow> fault + of_object_id_t" where
  "of_instruction_wire_object_id_get T obj =
     (case of_tlv16_wire_type_get obj of
        Inl e \<Rightarrow> Inl e
      | Inr wire_type \<Rightarrow>
          if wire_type = OF_EXPERIMENTER_TYPE then
            (case extension_instruction_object_id_get obj of
               Inl e \<Rightarrow> Inl e
             | Inr (rv, oid) \<Rightarrow> Inr oid)
          else type_to_id_lookup (of_instruction_type_to_id T) (OF_INSTRUCTION_ITEM_COUNT T)
                 (version obj) wire_type)"

definition extension_queue_prop_object_id_get :: "of_object_t \<Rightarrow> fault + of_object_id_t" where
  "extension_queue_prop_object_id_get obj = Inr OF_QUEUE_PROP_EXPERIMENTER"

definition of_queue_prop_wire_object_id_get ::
  "of_type_maps \<Rightarrow> of_object_t \<Rightarrow> fault + of_object_id_t" where
  "of_queue_prop_wire_object_id_get T obj =
     (case of_tlv16_wire_type_get obj of
        Inl e \<Rightarrow> Inl e
      | Inr wire_type \<Rightarrow>
          if wire_type = OF_EXPERIMENTER_TYPE then extension_queue_prop_object_id_get obj
          else type_to_id_lookup (of_queue_prop_type_to_id T) (OF_QUEUE_PROP_ITEM_COUNT T)
                 (version obj) wire_type)"

definition extension_table_feature_prop_object_id_get ::
  "of_object_t \<Rightarrow> fault + of_object_id_t" where
  "extension_table_feature_prop_object_id_get obj = Inr OF_TABLE_FEATURE_PROP_EXPERIMENTER"

definition of_table_feature_prop_wire_object_id_get ::
  "of_type_maps \<Rightarrow> of_object_t \<Rightarrow> fault + of_object_id_t" where
  "of_table_feature_prop_wire_object_id_get T obj =
     (case of_tlv16_wire_type_get obj of
        Inl e \<Rightarrow> Inl e
      | Inr wire_type \<Rightarrow>
          if wire_type = OF_EXPERIMENTER_TYPE
          then extension_table_feature_prop_object_id_get obj
          else type_to_id_lookup (of_table_feature_prop_type_to_id T)
                 (OF_TABLE_FEATURE_PROP_ITEM_COUNT T) (version obj) wire_type)"

definition of_meter_band_wire_object_id_get ::
  "of_type_maps \<Rightarrow> of_object_t \<Rightarrow> fault + of_object_id_t" where
  "of_meter_band_wire_object_id_get T obj =
     (case of_tlv16_wire_type_get obj of
        Inl e \<Rightarrow> Inl e
      | Inr wire_type \<Rightarrow>
          if wire_type = OF_EXPERIMENTER_TYPE then Inr OF_METER_BAND_EXPERIMENTER
          else type_to_id_lookup (of_meter_band_type_to_id T) (OF_METER_BAND_ITEM_COUNT T)
                 (version obj) wire_type)"

definition of_hello_elem_wire_object_id_get ::
  "of_type_maps \<Rightarrow> of_object_t \<Rightarrow> fault + of_object_id_t" where
  "of_hello_elem_wire_object_id_get T obj =
     (case of_tlv16_wire_type_get obj of
        Inl e \<Rightarrow> Inl e
      | Inr wire_type \<Rightarrow>
          type_to_id_lookup (of_hello_elem_type_to_id T) (OF_HELLO_ELEM_ITEM_COUNT T)
            (version obj) wire_type)"

subsection \<open>OXM type and length functions\<close>

definition OXM_HDR_OFFSET :: nat where
  "OXM_HDR_OFFSET = 0"

text \<open>
  Modelled from the spec: the OXM header macros (declared in the loci headers). The
  32-bit header word holds a 16-bit match class, a 7-bit field number and a 1-bit
  has-mask flag, which together are the 24-bit masked type, above an 8-bit payload
  length; each is extracted and inserted by shift and mask.
\<close>

definition OF_OXM_MASKED_TYPE_GET :: "u32 \<Rightarrow> u32" where
  "OF_OXM_MASKED_TYPE_GET hdr = drop_bit 8 hdr AND 0xffffff"

definition OF_OXM_MASKED_TYPE_SET :: "u32 \<Rightarrow> int \<Rightarrow> u32" where
  "OF_OXM_MASKED_TYPE_SET hdr val =
     (hdr AND 0x000000ff) + push_bit 8 (word_of_int val AND 0xffffff)"

definition OF_OXM_LENGTH_GET :: "u32 \<Rightarrow> u32" where
  "OF_OXM_LENGTH_GET hdr = hdr AND 0xff"

definition OF_OXM_LENGTH_SET :: "u32 \<Rightarrow> int \<Rightarrow> u32" where
  "OF_OXM_LENGTH_SET hdr val = (hdr AND 0xffffff00) + (word_of_int val AND 0xff)"

definition GET_OXM_TYPE_LEN :: "of_object_t \<Rightarrow> fault + (of_wire_buffer_t \<times> u32)" where
  "GET_OXM_TYPE_LEN obj =
     (case OF_OBJECT_TO_WBUF obj of
        None \<Rightarrow> Inl ASSERT_FAILURE
      | Some b \<Rightarrow>
          (case of_wire_buffer_u32_get b (OF_OBJECT_ABSOLUTE_OFFSET obj OXM_HDR_OFFSET) of
             Inl e \<Rightarrow> Inl e
           | Inr tl_p \<Rightarrow> Inr (b, tl_p)))"

definition of_oxm_wire_length_get :: "of_object_t \<Rightarrow> fault + int" where
  "of_oxm_wire_length_get obj =
     (case GET_OXM_TYPE_LEN obj of
        Inl e \<Rightarrow> Inl e
      | Inr (b, type_len) \<Rightarrow> Inr (uint (OF_OXM_LENGTH_GET type_len)))"

definition of_oxm_wire_length_set :: "of_object_t \<Rightarrow> int \<Rightarrow> fault + of_object_t" where
  "of_oxm_wire_length_set obj bytes =
     (if \<not> (bytes \<ge> 0 \<and> bytes < 256) then Inl ASSERT_FAILURE
      else
        (case GET_OXM_TYPE_LEN obj of
           Inl e \<Rightarrow> Inl e
         | Inr (b, type_len) \<Rightarrow>
             (case of_wire_buffer_u32_set b (OF_OBJECT_ABSOLUTE_OFFSET obj OXM_HDR_OFFSET)
                     (OF_OXM_LENGTH_SET type_len bytes) of
                Inl e \<Rightarrow> Inl e
              | Inr b' \<Rightarrow> Inr (wbuf_update obj b'))))"

definition of_oxm_wire_object_id_get ::
  "of_type_maps \<Rightarrow> of_object_t \<Rightarrow> fault + of_object_id_t" where
  "of_oxm_wire_object_id_get T obj =
     (case GET_OXM_TYPE_LEN obj of
        Inl e \<Rightarrow> Inl e
      | Inr (b, type_len) \<Rightarrow>
          (let wire_type = uint (OF_OXM_MASKED_TYPE_GET type_len)
           in Inr (of_oxm_to_object_id T wire_type (version obj))))"

definition of_oxm_wire_object_id_set ::
  "of_type_maps \<Rightarrow> of_object_t \<Rightarrow> of_object_id_t \<Rightarrow> fault + of_object_t" where
  "of_oxm_wire_object_id_set T obj oid =
     (if \<not> OF_OXM_VALID_ID T oid then Inl ASSERT_FAILURE
      else
        (case GET_OXM_TYPE_LEN obj of
           Inl e \<Rightarrow> Inl e
         | Inr (b, type_len) \<Rightarrow>
             (let wire_type = of_object_to_wire_type T oid (version obj) in
              if \<not> wire_type \<ge> 0 then Inl ASSERT_FAILURE
              else
                (case of_wire_buffer_u32_set b
                        (OF_OBJECT_ABSOLUTE_OFFSET obj OXM_HDR_OFFSET)
                        (OF_OXM_MASKED_TYPE_SET type_len wire_type) of
                   Inl e \<Rightarrow> Inl e
                 | Inr b' \<Rightarrow> Inr (wbuf_update obj b')))))"

subsection \<open>Packet queue and meter band stats lengths\<close>

definition OF_PACKET_QUEUE_LENGTH_OFFSET :: "of_version_t \<Rightarrow> nat" where
  "OF_PACKET_QUEUE_LENGTH_OFFSET ver = (if ver \<ge> OF_VERSION_1_2 then 8 else 4)"

definition of_packet_queue_wire_length_get :: "of_object_t \<Rightarrow> fault + int" where
  "of_packet_queue_wire_length_get obj =
     (case OF_OBJECT_TO_WBUF obj of
        None \<Rightarrow> Inl ASSERT_FAILURE
      | Some b \<Rightarrow>
          (let offset = OF_PACKET_QUEUE_LENGTH_OFFSET (version obj) in
           case of_wire_buffer_u16_get b (OF_OBJECT_ABSOLUTE_OFFSET obj offset) of
             Inl e \<Rightarrow> Inl e
           | Inr u16 \<Rightarrow> Inr (uint u16)))"

definition of_packet_queue_wire_length_set :: "of_object_t \<Rightarrow> int \<Rightarrow> fault + of_object_t" where
  "of_packet_queue_wire_length_set obj bytes =
     (case OF_OBJECT_TO_WBUF obj of
        None \<Rightarrow> Inl ASSERT_FAILURE
      | Some b \<Rightarrow>
          (let offset = OF_PACKET_QUEUE_LENGTH_OFFSET (version obj) in
           case of_wire_buffer_u16_set b (OF_OBJECT_ABSOLUTE_OFFSET obj offset)
                  (word_of_int bytes) of
             Inl e \<Rightarrow> Inl e
           | Inr b' \<Rightarrow> Inr (wbuf_update obj b')))"

definition of_list_meter_band_stats_wire_length_get ::
  "of_type_maps \<Rightarrow> of_object_t \<Rightarrow> fault + int" where
  "of_list_meter_band_stats_wire_length_get T obj =
     (case parent obj of
        None \<Rightarrow> Inl ASSERT_FAILURE
      | Some p \<Rightarrow>
          if \<not> object_id p = OF_METER_STATS then Inl ASSERT_FAILURE
          else Inr (obj_length p - OF_OBJECT_FIXED_LENGTH T p))"

subsection \<open>Pushing the wire values of an extension object\<close>

text \<open>
  Modelled from the spec: the field setters of the vendor-extension objects
  (\<^verbatim>\<open>of_action_bsn_mirror_experimenter_set\<close> and its eleven siblings, generated
  accessors outside this source file). Each writes one field through the Wire Buffer:
  the 32-bit vendor identifier at offset 4 of the object, or the sub-type at offset 8,
  32 bits wide for Big Switch Networks and 16 bits wide for Nicira.
\<close>

definition experimenter_field_set :: "of_object_t \<Rightarrow> u32 \<Rightarrow> fault + of_object_t" where
  "experimenter_field_set obj experimenter =
     (case OF_OBJECT_TO_WBUF obj of
        None \<Rightarrow> Inl ASSERT_FAILURE
      | Some b \<Rightarrow>
          (case of_wire_buffer_u32_set b (OF_OBJECT_ABSOLUTE_OFFSET obj 4) experimenter of
             Inl e \<Rightarrow> Inl e
           | Inr b' \<Rightarrow> Inr (wbuf_update obj b')))"

definition subtype_u32_field_set :: "of_object_t \<Rightarrow> u32 \<Rightarrow> fault + of_object_t" where
  "subtype_u32_field_set obj subtype =
     (case OF_OBJECT_TO_WBUF obj of
        None \<Rightarrow> Inl ASSERT_FAILURE
      | Some b \<Rightarrow>
          (case of_wire_buffer_u32_set b (OF_OBJECT_ABSOLUTE_OFFSET obj 8) subtype of
             Inl e \<Rightarrow> Inl e
           | Inr b' \<Rightarrow> Inr (wbuf_update obj b')))"

definition subtype_u16_field_set :: "of_object_t \<Rightarrow> u16 \<Rightarrow> fault + of_object_t" where
  "subtype_u16_field_set obj subtype =
     (case OF_OBJECT_TO_WBUF obj of
        None \<Rightarrow> Inl ASSERT_FAILURE
      | Some b \<Rightarrow>
          (case of_wire_buffer_u16_set b (OF_OBJECT_ABSOLUTE_OFFSET obj 8) subtype of
             Inl e \<Rightarrow> Inl e
           | Inr b' \<Rightarrow> Inr (wbuf_update obj b')))"

definition of_action_bsn_mirror_experimenter_set where
  "of_action_bsn_mirror_experimenter_set = experimenter_field_set"

definition of_action_bsn_mirror_subtype_set where
  "of_action_bsn_mirror_subtype_set = subtype_u32_field_set"

definition of_action_id_bsn_mirror_experimenter_set where
  "of_action_id_bsn_mirror_experimenter_set = experimenter_field_set"

definition of_action_id_bsn_mirror_subtype_set where
  "of_action_id_bsn_mirror_subtype_set = subtype_u32_field_set"

definition of_action_bsn_set_tunnel_dst_experimenter_set where
  "of_action_bsn_set_tunnel_dst_experimenter_set = experimenter_field_set"

definition of_action_bsn_set_tunnel_dst_subtype_set where
  "of_action_bsn_set_tunnel_dst_subtype_set = subtype_u32_field_set"

definition of_action_id_bsn_set_tunnel_dst_experimenter_set where
  "of_action_id_bsn_set_tunnel_dst_experimenter_set = experimenter_field_set"

definition of_action_id_bsn_set_tunnel_dst_subtype_set where
  "of_action_id_bsn_set_tunnel_dst_subtype_set = subtype_u32_field_set"

definition of_action_nicira_dec_ttl_experimenter_set where
  "of_action_nicira_dec_ttl_experimenter_set = experimenter_field_set"

definition of_action_nicira_dec_ttl_subtype_set where
  "of_action_nicira_dec_ttl_subtype_set = subtype_u16_field_set"

definition of_action_id_nicira_dec_ttl_experimenter_set where
  "of_action_id_nicira_dec_ttl_experimenter_set = experimenter_field_set"

definition of_action_id_nicira_dec_ttl_subtype_set where
  "of_action_id_nicira_dec_ttl_subtype_set = subtype_u16_field_set"

text \<open>Two field setters in sequence, as each case of the switch calls them.\<close>

definition push_pair ::
  "(of_object_t \<Rightarrow> u32 \<Rightarrow> fault + of_object_t) \<Rightarrow> u32 \<Rightarrow>
   (of_object_t \<Rightarrow> 'a \<Rightarrow> fault + of_object_t) \<Rightarrow> 'a \<Rightarrow> of_object_t \<Rightarrow> fault + of_object_t" where
  "push_pair experimenter_set experimenter subtype_set subtype obj =
     (case experimenter_set obj experimenter of
        Inl e \<Rightarrow> Inl e
      | Inr obj1 \<Rightarrow> subtype_set obj1 subtype)"

definition of_extension_object_wire_push :: "of_object_t \<Rightarrow> fault + (int \<times> of_object_t)" where
  "of_extension_object_wire_push obj =
     (case
        (if object_id obj = OF_ACTION_BSN_MIRROR then
           push_pair of_action_bsn_mirror_experimenter_set OF_EXPERIMENTER_ID_BSN
             of_action_bsn_mirror_subtype_set 1 obj
         else if object_id obj = OF_ACTION_ID_BSN_MIRROR then
           push_pair of_action_id_bsn_mirror_experimenter_set OF_EXPERIMENTER_ID_BSN
             of_action_id_bsn_mirror_subtype_set 1 obj
         else if object_id obj = OF_ACTION_BSN_SET_TUNNEL_DST then
           push_pair of_action_bsn_set_tunnel_dst_experimenter_set OF_EXPERIMENTER_ID_BSN
             of_action_bsn_set_tunnel_dst_subtype_set 2 obj
         else if object_id obj = OF_ACTION_ID_BSN_SET_TUNNEL_DST then
           push_pair of_action_id_bsn_set_tunnel_dst_experimenter_set OF_EXPERIMENTER_ID_BSN
             of_action_id_bsn_set_tunnel_dst_subtype_set 2 obj
         else if object_id obj = OF_ACTION_NICIRA_DEC_TTL then
           push_pair of_action_nicira_dec_ttl_experimenter_set OF_EXPERIMENTER_ID_NICIRA
             of_action_nicira_dec_ttl_subtype_set 18 obj
         else if object_id obj = OF_ACTION_ID_NICIRA_DEC_TTL then
           push_pair of_action_id_nicira_dec_ttl_experimenter_set OF_EXPERIMENTER_ID_NICIRA
             of_action_id_nicira_dec_ttl_subtype_set 18 obj
         else Inr obj)
      of
        Inl e \<Rightarrow> Inl e
      | Inr obj' \<Rightarrow> Inr (OF_ERROR_NONE, obj'))"

subsection \<open>The table invariant and example data\<close>

text \<open>
  The table invariant of the action family at one (version, identifier) pair, as the
  spec words it: the identifier has a wire type code (not the negative sentinel, and a
  16-bit value), and unless that code is the one shared experimenter code, the reverse
  map of the action family takes the code back to the identifier.
\<close>

definition action_map_consistent ::
  "of_type_maps \<Rightarrow> of_version_t \<Rightarrow> of_object_id_t \<Rightarrow> bool" where
  "action_map_consistent T ver oid =
     (let wire_type = of_object_to_type_map T ver oid in
      0 \<le> wire_type \<and> wire_type < 65536 \<and> oid \<noteq> OF_OBJECT_INVALID \<and>
      (wire_type = OF_EXPERIMENTER_TYPE \<or>
       (wire_type < OF_ACTION_ITEM_COUNT T \<and> of_action_type_to_id T ver wire_type = oid)))"

text \<open>
  The invariant of the OXM maps at one (version, identifier) pair: the identifier is a
  valid OXM identifier, its masked type is a 24-bit value, and the reverse map takes the
  masked type back to the identifier.
\<close>

definition oxm_map_consistent ::
  "of_type_maps \<Rightarrow> of_version_t \<Rightarrow> of_object_id_t \<Rightarrow> bool" where
  "oxm_map_consistent T ver oid =
     (let wire_type = of_object_to_wire_type T oid ver in
      OF_OXM_VALID_ID T oid \<and> 0 \<le> wire_type \<and> wire_type < 16777216 \<and>
      of_oxm_to_object_id T wire_type ver = oid)"

text \<open>
  Example tables for the concrete evaluations: every experimenter identifier has the
  experimenter code; two further identifiers of each TLV16 family have the codes 0 and
  1; one OXM identifier has the masked type 0x800000; a meter stats object has the
  fixed length 8.
\<close>

definition example_type_to_id :: "of_version_t \<Rightarrow> int \<Rightarrow> of_object_id_t" where
  "example_type_to_id ver wire_type =
     (if wire_type = 0 then OF_OBJECT_OTHER 0
      else if wire_type = 1 then OF_OBJECT_OTHER 1
      else OF_OBJECT_INVALID)"

definition example_to_type_map :: "of_version_t \<Rightarrow> of_object_id_t \<Rightarrow> int" where
  "example_to_type_map ver oid =
     (case oid of
        OF_OBJECT_INVALID \<Rightarrow> - 1
      | OF_METER_STATS \<Rightarrow> - 1
      | OF_OBJECT_OTHER n \<Rightarrow> (if n < 2 then int n else - 1)
      | _ \<Rightarrow> 0xffff)"

definition example_maps :: of_type_maps where
  "example_maps =
     \<lparr> of_object_to_type_map = example_to_type_map,
       of_action_type_to_id = example_type_to_id,
       OF_ACTION_ITEM_COUNT = 2,
       of_action_id_type_to_id = example_type_to_id,
       OF_ACTION_ID_ITEM_COUNT = 2,
       of_instruction_type_to_id = example_type_to_id,
       OF_INSTRUCTION_ITEM_COUNT = 2,
       of_queue_prop_type_to_id = example_type_to_id,
       OF_QUEUE_PROP_ITEM_COUNT = 2,
       of_table_feature_prop_type_to_id = example_type_to_id,
       OF_TABLE_FEATURE_PROP_ITEM_COUNT = 2,
       of_meter_band_type_to_id = example_type_to_id,
       OF_METER_BAND_ITEM_COUNT = 2,
       of_hello_elem_type_to_id = example_type_to_id,
       OF_HELLO_ELEM_ITEM_COUNT = 2,
       of_oxm_to_object_id =
         (\<lambda>wire_type ver. if wire_type = 0x800000 then OF_OBJECT_OTHER 100
                          else OF_OBJECT_INVALID),
       of_object_to_wire_type =
         (\<lambda>oid ver. if oid = OF_OBJECT_OTHER 100 then 0x800000 else - 1),
       OF_OXM_VALID_ID = (\<lambda>oid. oid = OF_OBJECT_OTHER 100),
       of_object_fixed_len = (\<lambda>ver oid. if oid = OF_METER_STATS then 8 else 0) \<rparr>"

text \<open>
  An example object: sixteen bytes at offset 0 of its buffer, holding an experimenter
  action of Big Switch Networks with sub-type 1 (a mirror action).
\<close>

definition example_mirror_bytes :: of_wire_buffer_t where
  "example_mirror_bytes =
     [0xff, 0xff, 0x00, 0x10, 0x00, 0x5c, 0x16, 0xc7,
      0x00, 0x00, 0x00, 0x01, 0x00, 0x00, 0x00, 0x00]"

definition example_object :: "of_wire_buffer_t \<Rightarrow> of_version_t \<Rightarrow> of_object_id_t \<Rightarrow> of_object_t" where
  "example_object b ver oid = Of_object (Some b) 0 ver oid 16 None"

section \<open>Properties\<close>

subsection \<open>Big-endian fields of the wire buffer\<close>

lemma u16_bytes:
  "push_bit 8 (ucast (ucast (drop_bit 8 v) :: u8)) OR ucast (ucast v :: u8) = (v :: u16)"
  by (rule bit_word_eqI) (auto simp: bit_simps)

lemma u32_bytes:
  "push_bit 24 (ucast (ucast (drop_bit 24 v) :: u8)) OR
   push_bit 16 (ucast (ucast (drop_bit 16 v) :: u8)) OR
   push_bit 8 (ucast (ucast (drop_bit 8 v) :: u8)) OR ucast (ucast v :: u8) = (v :: u32)"
proof (rule bit_word_eqI)
  fix n :: nat
  assume n: "n < LENGTH(32)"
  consider "n < 8" | "8 \<le> n" "n < 16" | "16 \<le> n" "n < 24" | "24 \<le> n"
    by linarith
  then show "bit (push_bit 24 (ucast (ucast (drop_bit 24 v) :: u8)) OR
                 push_bit 16 (ucast (ucast (drop_bit 16 v) :: u8)) OR
                 push_bit 8 (ucast (ucast (drop_bit 8 v) :: u8)) OR
                 ucast (ucast v :: u8) :: u32) n = bit v n"
    using n by cases (auto simp: bit_simps)
qed

lemma buf_u16_get_set:
  "buf_u16_set b i v = Inr b' \<Longrightarrow> buf_u16_get b' i = Inr v"
  by (auto simp: buf_u16_set_def buf_u16_get_def u16_bytes split: if_splits)

lemma buf_u32_get_set:
  "buf_u32_set b i v = Inr b' \<Longrightarrow> buf_u32_get b' i = Inr v"
  by (auto simp: buf_u32_set_def buf_u32_get_def u32_bytes split: if_splits)

lemma buf_u16_set_length: "buf_u16_set b i v = Inr b' \<Longrightarrow> length b' = length b"
  by (auto simp: buf_u16_set_def split: if_splits)

lemma buf_u32_set_length: "buf_u32_set b i v = Inr b' \<Longrightarrow> length b' = length b"
  by (auto simp: buf_u32_set_def split: if_splits)

lemma buf_u16_set_nth:
  "buf_u16_set b i v = Inr b' \<Longrightarrow> k < i \<or> i + 2 \<le> k \<Longrightarrow> b' ! k = b ! k"
  by (auto simp: buf_u16_set_def split: if_splits)

lemma buf_u32_set_nth:
  "buf_u32_set b i v = Inr b' \<Longrightarrow> k < i \<or> i + 4 \<le> k \<Longrightarrow> b' ! k = b ! k"
  by (auto simp: buf_u32_set_def split: if_splits)

lemma buf_u16_get_cong:
  "length b' = length b \<Longrightarrow> b' ! i = b ! i \<Longrightarrow> b' ! (i + 1) = b ! (i + 1) \<Longrightarrow>
   buf_u16_get b' i = buf_u16_get b i"
  by (simp add: buf_u16_get_def)

lemma buf_u32_get_cong:
  "length b' = length b \<Longrightarrow> b' ! i = b ! i \<Longrightarrow> b' ! (i + 1) = b ! (i + 1) \<Longrightarrow>
   b' ! (i + 2) = b ! (i + 2) \<Longrightarrow> b' ! (i + 3) = b ! (i + 3) \<Longrightarrow>
   buf_u32_get b' i = buf_u32_get b i"
  by (simp add: buf_u32_get_def)

lemmas obj_defs = OF_OBJECT_BUFFER_INDEX_def OF_OBJECT_TO_WBUF_def OF_OBJECT_ABSOLUTE_OFFSET_def
  OF_ACTION_EXPERIMENTER_ID_OFFSET_def OF_ACTION_EXPERIMENTER_SUBTYPE_OFFSET_def TLV16_WIRE_TYPE_OFFSET_def

lemma wbuf_update_sel:
  "wbuf (wbuf_update obj b) = Some b" "obj_offset (wbuf_update obj b) = obj_offset obj"
  "version (wbuf_update obj b) = version obj" "object_id (wbuf_update obj b) = object_id obj"
  "obj_length (wbuf_update obj b) = obj_length obj" "parent (wbuf_update obj b) = parent obj"
  by (simp_all add: wbuf_update_def)

lemma type_to_id_lookup_eq:
  "type_to_id_lookup tab n ver wt =
     (if 0 \<le> wt \<and> wt < n \<and> tab ver wt \<noteq> OF_OBJECT_INVALID then Inr (tab ver wt)
      else Inl ASSERT_FAILURE)"
  by (simp add: type_to_id_lookup_def Let_def)

lemma example_type_get:
  "of_tlv16_wire_type_get (example_object (w1 # w2 # bs) ver oid) =
     Inr (uint (push_bit 8 (ucast w1) OR ucast w2 :: u16))"
  by (simp add: of_tlv16_wire_type_get_def example_object_def obj_defs
      of_wire_buffer_u16_get_def buf_u16_get_def)

subsection \<open>Decoding an experimenter action\<close>

text \<open>
  Claim C1. For an action object whose 16-bit wire type is the experimenter code,
  \<^verbatim>\<open>of_action_wire_object_id_get\<close> reads the 32-bit vendor identifier at byte offset 4
  of the object. For the vendor BSN it reads a 32-bit sub-type at offset 8 and answers
  the BSN mirror identifier for sub-type 1 and the BSN set-tunnel-dst identifier for
  sub-type 2; for the vendor Nicira it reads a 16-bit sub-type at offset 8 and answers
  the Nicira decrement-TTL identifier for sub-type 18. For every other vendor and every
  other sub-type it answers the generic experimenter action identifier. It never
  fails, provided the fields it reads lie inside the buffer.
\<close>

theorem of_action_wire_object_id_get_experimenter:
  assumes "wbuf obj = Some b"
    and "of_tlv16_wire_type_get obj = Inr OF_EXPERIMENTER_TYPE"
    and "buf_u32_get b (obj_offset obj + 4) = Inr vendor"
    and "vendor = OF_EXPERIMENTER_ID_BSN \<Longrightarrow> buf_u32_get b (obj_offset obj + 8) = Inr sub32"
    and "vendor = OF_EXPERIMENTER_ID_NICIRA \<Longrightarrow> buf_u16_get b (obj_offset obj + 8) = Inr sub16"
  shows "of_action_wire_object_id_get T obj =
           Inr (if vendor = OF_EXPERIMENTER_ID_BSN \<and> sub32 = 1 then OF_ACTION_BSN_MIRROR
                else if vendor = OF_EXPERIMENTER_ID_BSN \<and> sub32 = 2 then OF_ACTION_BSN_SET_TUNNEL_DST
                else if vendor = OF_EXPERIMENTER_ID_NICIRA \<and> sub16 = 18 then OF_ACTION_NICIRA_DEC_TTL
                else OF_ACTION_EXPERIMENTER)"
  using assms
  by (auto simp: of_action_wire_object_id_get_def extension_action_object_id_get_def obj_defs
        OF_EXPERIMENTER_ID_BSN_def OF_EXPERIMENTER_ID_NICIRA_def)

theorem of_action_wire_object_id_get_experimenter_witness:
  "wbuf (example_object example_mirror_bytes 4 OF_ACTION_EXPERIMENTER) = Some example_mirror_bytes \<and>
   of_tlv16_wire_type_get (example_object example_mirror_bytes 4 OF_ACTION_EXPERIMENTER)
     = Inr OF_EXPERIMENTER_TYPE \<and>
   buf_u32_get example_mirror_bytes 4 = Inr OF_EXPERIMENTER_ID_BSN \<and>
   buf_u32_get example_mirror_bytes 8 = Inr 1 \<and>
   of_action_wire_object_id_get example_maps
     (example_object example_mirror_bytes 4 OF_ACTION_EXPERIMENTER) = Inr OF_ACTION_BSN_MIRROR"
proof -
  let ?obj = "example_object example_mirror_bytes 4 OF_ACTION_EXPERIMENTER"
  have w: "wbuf ?obj = Some example_mirror_bytes"
    by (simp add: example_object_def)
  have off: "obj_offset ?obj = 0"
    by (simp add: example_object_def)
  have t: "of_tlv16_wire_type_get ?obj = Inr OF_EXPERIMENTER_TYPE"
    by (simp add: of_tlv16_wire_type_get_def example_object_def example_mirror_bytes_def
        obj_defs of_wire_buffer_u16_get_def buf_u16_get_def OF_EXPERIMENTER_TYPE_def)
  have v: "buf_u32_get example_mirror_bytes 4 = Inr OF_EXPERIMENTER_ID_BSN"
    by (simp add: example_mirror_bytes_def buf_u32_get_def OF_EXPERIMENTER_ID_BSN_def)
  have s: "buf_u32_get example_mirror_bytes 8 = Inr 1"
    by (simp add: example_mirror_bytes_def buf_u32_get_def)
  have n: "OF_EXPERIMENTER_ID_BSN \<noteq> OF_EXPERIMENTER_ID_NICIRA"
    by (simp add: OF_EXPERIMENTER_ID_BSN_def OF_EXPERIMENTER_ID_NICIRA_def)
  have "of_action_wire_object_id_get example_maps ?obj = Inr OF_ACTION_BSN_MIRROR"
    using of_action_wire_object_id_get_experimenter
      [of ?obj example_mirror_bytes OF_EXPERIMENTER_ID_BSN 1 0 example_maps] w t v s n
    by (simp add: off)
  with w t v s show ?thesis by simp
qed

subsection \<open>The encode path of the extension dispatcher\<close>

text \<open>
  Claim C7. For an object with an attached buffer and an identifier that is none of the
  six registered vendor-extension identifiers (BSN mirror, BSN set-tunnel-dst and
  Nicira decrement-TTL, each as action and as action-id),
  \<^verbatim>\<open>of_extension_object_id_set\<close> does not fail and returns the object as it was: no
  byte of the wire buffer changes.
\<close>

theorem of_extension_object_id_set_unregistered:
  assumes "wbuf obj = Some b"
    and "oid \<notin> {OF_ACTION_BSN_MIRROR, OF_ACTION_ID_BSN_MIRROR, OF_ACTION_BSN_SET_TUNNEL_DST,
                 OF_ACTION_ID_BSN_SET_TUNNEL_DST, OF_ACTION_NICIRA_DEC_TTL,
                 OF_ACTION_ID_NICIRA_DEC_TTL}"
  shows "of_extension_object_id_set obj oid = Inr obj"
  using assms by (simp add: of_extension_object_id_set_def obj_defs)

theorem of_extension_object_id_set_unregistered_witness:
  "of_extension_object_id_set (example_object example_mirror_bytes 4 OF_ACTION_EXPERIMENTER)
     OF_ACTION_EXPERIMENTER
   = Inr (example_object example_mirror_bytes 4 OF_ACTION_EXPERIMENTER)"
  using of_extension_object_id_set_unregistered
    [of "example_object example_mirror_bytes 4 OF_ACTION_EXPERIMENTER" example_mirror_bytes
        OF_ACTION_EXPERIMENTER]
  by (simp add: example_object_def)

subsection \<open>The identifier getters of the TLV16 families\<close>

text \<open>
  Claim C8. Each of the seven family-specific identifier getters (actions, action-ids,
  instructions, queue properties, table-feature properties, meter bands, hello
  elements), on a wire type that its experimenter branch does not take, fails an
  assertion when the wire type is outside the range from 0 up to the family's item
  count, fails an assertion when the reverse table answers the invalid identifier, and
  answers the table's identifier otherwise.
\<close>

theorem wire_object_id_get_range_checked:
  assumes "of_tlv16_wire_type_get obj = Inr wire_type"
  shows
   "(wire_type \<noteq> OF_EXPERIMENTER_TYPE \<longrightarrow>
       of_action_wire_object_id_get T obj =
         (if 0 \<le> wire_type \<and> wire_type < OF_ACTION_ITEM_COUNT T \<and>
             of_action_type_to_id T (version obj) wire_type \<noteq> OF_OBJECT_INVALID
          then Inr (of_action_type_to_id T (version obj) wire_type)
          else Inl ASSERT_FAILURE)) \<and>
    (wire_type \<noteq> OF_EXPERIMENTER_TYPE \<longrightarrow>
       of_action_id_wire_object_id_get T obj =
         (if 0 \<le> wire_type \<and> wire_type < OF_ACTION_ID_ITEM_COUNT T \<and>
             of_action_id_type_to_id T (version obj) wire_type \<noteq> OF_OBJECT_INVALID
          then Inr (of_action_id_type_to_id T (version obj) wire_type)
          else Inl ASSERT_FAILURE)) \<and>
    (wire_type \<noteq> OF_EXPERIMENTER_TYPE \<longrightarrow>
       of_instruction_wire_object_id_get T obj =
         (if 0 \<le> wire_type \<and> wire_type < OF_INSTRUCTION_ITEM_COUNT T \<and>
             of_instruction_type_to_id T (version obj) wire_type \<noteq> OF_OBJECT_INVALID
          then Inr (of_instruction_type_to_id T (version obj) wire_type)
          else Inl ASSERT_FAILURE)) \<and>
    (wire_type \<noteq> OF_EXPERIMENTER_TYPE \<longrightarrow>
       of_queue_prop_wire_object_id_get T obj =
         (if 0 \<le> wire_type \<and> wire_type < OF_QUEUE_PROP_ITEM_COUNT T \<and>
             of_queue_prop_type_to_id T (version obj) wire_type \<noteq> OF_OBJECT_INVALID
          then Inr (of_queue_prop_type_to_id T (version obj) wire_type)
          else Inl ASSERT_FAILURE)) \<and>
    (wire_type \<noteq> OF_EXPERIMENTER_TYPE \<longrightarrow>
       of_table_feature_prop_wire_object_id_get T obj =
         (if 0 \<le> wire_type \<and> wire_type < OF_TABLE_FEATURE_PROP_ITEM_COUNT T \<and>
             of_table_feature_prop_type_to_id T (version obj) wire_type \<noteq> OF_OBJECT_INVALID
          then Inr (of_table_feature_prop_type_to_id T (version obj) wire_type)
          else Inl ASSERT_FAILURE)) \<and>
    (wire_type \<noteq> OF_EXPERIMENTER_TYPE \<longrightarrow>
       of_meter_band_wire_object_id_get T obj =
         (if 0 \<le> wire_type \<and> wire_type < OF_METER_BAND_ITEM_COUNT T \<and>
             of_meter_band_type_to_id T (version obj) wire_type \<noteq> OF_OBJECT_INVALID
          then Inr (of_meter_band_type_to_id T (version obj) wire_type)
          else Inl ASSERT_FAILURE)) \<and>
    of_hello_elem_wire_object_id_get T obj =
         (if 0 \<le> wire_type \<and> wire_type < OF_HELLO_ELEM_ITEM_COUNT T \<and>
             of_hello_elem_type_to_id T (version obj) wire_type \<noteq> OF_OBJECT_INVALID
          then Inr (of_hello_elem_type_to_id T (version obj) wire_type)
          else Inl ASSERT_FAILURE)"
  using assms
  by (simp add: type_to_id_lookup_eq of_action_wire_object_id_get_def
      of_action_id_wire_object_id_get_def of_instruction_wire_object_id_get_def
      of_queue_prop_wire_object_id_get_def of_table_feature_prop_wire_object_id_get_def
      of_meter_band_wire_object_id_get_def of_hello_elem_wire_object_id_get_def)

theorem wire_object_id_get_range_checked_witness:
  "of_tlv16_wire_type_get (example_object [0x00, 0x05, 0x00, 0x08] 4 (OF_OBJECT_OTHER 9)) = Inr 5 \<and>
   of_action_wire_object_id_get example_maps
     (example_object [0x00, 0x05, 0x00, 0x08] 4 (OF_OBJECT_OTHER 9)) = Inl ASSERT_FAILURE \<and>
   of_hello_elem_wire_object_id_get example_maps
     (example_object [0x00, 0x05, 0x00, 0x08] 4 (OF_OBJECT_OTHER 9)) = Inl ASSERT_FAILURE \<and>
   of_tlv16_wire_type_get (example_object [0x00, 0x01, 0x00, 0x08] 4 (OF_OBJECT_OTHER 9)) = Inr 1 \<and>
   of_action_wire_object_id_get example_maps
     (example_object [0x00, 0x01, 0x00, 0x08] 4 (OF_OBJECT_OTHER 9)) = Inr (OF_OBJECT_OTHER 1)"
proof -
  let ?o5 = "example_object [0x00, 0x05, 0x00, 0x08] 4 (OF_OBJECT_OTHER 9)"
  let ?o1 = "example_object [0x00, 0x01, 0x00, 0x08] 4 (OF_OBJECT_OTHER 9)"
  have t5: "of_tlv16_wire_type_get ?o5 = Inr 5"
    by (simp add: example_type_get)
  have t1: "of_tlv16_wire_type_get ?o1 = Inr 1"
    by (simp add: example_type_get)
  show ?thesis
    using wire_object_id_get_range_checked [OF t5, of example_maps]
      wire_object_id_get_range_checked [OF t1, of example_maps] t5 t1
    by (simp add: example_maps_def OF_EXPERIMENTER_TYPE_def example_type_to_id_def)
qed

text \<open>
  Claim C9. \<^verbatim>\<open>of_hello_elem_wire_object_id_get\<close> has no experimenter case: on a wire
  type equal to the experimenter code it still looks the code up in the reverse table,
  under the range assertion and the assertion on the identifier found. The six other
  getters answer through their experimenter branch on the same wire type, without the
  table.
\<close>

theorem of_hello_elem_wire_object_id_get_no_experimenter_case:
  assumes "of_tlv16_wire_type_get obj = Inr OF_EXPERIMENTER_TYPE"
  shows
   "of_hello_elem_wire_object_id_get T obj =
      (if OF_EXPERIMENTER_TYPE < OF_HELLO_ELEM_ITEM_COUNT T \<and>
          of_hello_elem_type_to_id T (version obj) OF_EXPERIMENTER_TYPE \<noteq> OF_OBJECT_INVALID
       then Inr (of_hello_elem_type_to_id T (version obj) OF_EXPERIMENTER_TYPE)
       else Inl ASSERT_FAILURE) \<and>
    of_action_wire_object_id_get T obj = extension_action_object_id_get obj \<and>
    of_action_id_wire_object_id_get T obj = extension_action_id_object_id_get obj \<and>
    of_instruction_wire_object_id_get T obj = Inr OF_INSTRUCTION_EXPERIMENTER \<and>
    of_queue_prop_wire_object_id_get T obj = Inr OF_QUEUE_PROP_EXPERIMENTER \<and>
    of_table_feature_prop_wire_object_id_get T obj = Inr OF_TABLE_FEATURE_PROP_EXPERIMENTER \<and>
    of_meter_band_wire_object_id_get T obj = Inr OF_METER_BAND_EXPERIMENTER"
  using assms
  by (simp add: type_to_id_lookup_eq of_action_wire_object_id_get_def
      of_action_id_wire_object_id_get_def of_instruction_wire_object_id_get_def
      of_queue_prop_wire_object_id_get_def of_table_feature_prop_wire_object_id_get_def
      of_meter_band_wire_object_id_get_def of_hello_elem_wire_object_id_get_def
      extension_instruction_object_id_get_def extension_queue_prop_object_id_get_def
      extension_table_feature_prop_object_id_get_def OF_EXPERIMENTER_TYPE_def)

theorem of_hello_elem_wire_object_id_get_no_experimenter_case_witness:
  "of_tlv16_wire_type_get (example_object example_mirror_bytes 4 (OF_OBJECT_OTHER 9))
     = Inr OF_EXPERIMENTER_TYPE \<and>
   of_hello_elem_wire_object_id_get example_maps
     (example_object example_mirror_bytes 4 (OF_OBJECT_OTHER 9)) = Inl ASSERT_FAILURE \<and>
   of_meter_band_wire_object_id_get example_maps
     (example_object example_mirror_bytes 4 (OF_OBJECT_OTHER 9)) = Inr OF_METER_BAND_EXPERIMENTER"
proof -
  let ?obj = "example_object example_mirror_bytes 4 (OF_OBJECT_OTHER 9)"
  have t: "of_tlv16_wire_type_get ?obj = Inr OF_EXPERIMENTER_TYPE"
    by (simp add: example_mirror_bytes_def example_type_get OF_EXPERIMENTER_TYPE_def)
  show ?thesis
    using of_hello_elem_wire_object_id_get_no_experimenter_case [OF t, of example_maps] t
    by (simp add: example_maps_def OF_EXPERIMENTER_TYPE_def)
qed

subsection \<open>The length of a meter band stats list\<close>

text \<open>
  Claim C6. \<^verbatim>\<open>of_list_meter_band_stats_wire_length_get\<close> fails an assertion when the
  object has no parent and when the parent's identifier is not Meter Stats. Otherwise
  it answers the parent's length minus the fixed length of the parent, and the answer
  depends on nothing but the parent: the wire buffer is not read. A parent of length 20
  with fixed length 8 gives 12.
\<close>

theorem of_list_meter_band_stats_wire_length_get_derived:
  "(parent obj = None \<longrightarrow> of_list_meter_band_stats_wire_length_get T obj = Inl ASSERT_FAILURE) \<and>
   (\<forall>p. parent obj = Some p \<and> object_id p \<noteq> OF_METER_STATS \<longrightarrow>
        of_list_meter_band_stats_wire_length_get T obj = Inl ASSERT_FAILURE) \<and>
   (\<forall>p. parent obj = Some p \<and> object_id p = OF_METER_STATS \<longrightarrow>
        of_list_meter_band_stats_wire_length_get T obj =
          Inr (obj_length p - of_object_fixed_len T (version p) OF_METER_STATS)) \<and>
   (\<forall>obj'. parent obj' = parent obj \<longrightarrow>
        of_list_meter_band_stats_wire_length_get T obj' =
        of_list_meter_band_stats_wire_length_get T obj)"
  by (auto simp: of_list_meter_band_stats_wire_length_get_def OF_OBJECT_FIXED_LENGTH_def
      split: option.splits)

theorem of_list_meter_band_stats_wire_length_get_derived_witness:
  "of_list_meter_band_stats_wire_length_get example_maps
     (Of_object None 8 4 (OF_OBJECT_OTHER 7) 12
        (Some (Of_object None 0 4 OF_METER_STATS 20 None))) = Inr 12 \<and>
   of_list_meter_band_stats_wire_length_get example_maps
     (Of_object None 8 4 (OF_OBJECT_OTHER 7) 12
        (Some (Of_object None 0 4 OF_ACTION_EXPERIMENTER 20 None))) = Inl ASSERT_FAILURE \<and>
   of_list_meter_band_stats_wire_length_get example_maps
     (Of_object None 8 4 (OF_OBJECT_OTHER 7) 12 None) = Inl ASSERT_FAILURE"
  using of_list_meter_band_stats_wire_length_get_derived
      [of "Of_object None 8 4 (OF_OBJECT_OTHER 7) 12
            (Some (Of_object None 0 4 OF_METER_STATS 20 None))" example_maps]
    of_list_meter_band_stats_wire_length_get_derived
      [of "Of_object None 8 4 (OF_OBJECT_OTHER 7) 12
            (Some (Of_object None 0 4 OF_ACTION_EXPERIMENTER 20 None))" example_maps]
    of_list_meter_band_stats_wire_length_get_derived
      [of "Of_object None 8 4 (OF_OBJECT_OTHER 7) 12 None" example_maps]
  by (simp add: example_maps_def)

subsection \<open>The length of a packet queue\<close>

lemma uint_u16_of_int: "0 \<le> n \<Longrightarrow> n < 65536 \<Longrightarrow> uint (word_of_int n :: u16) = n"
  by (simp add: uint_word_of_int_eq take_bit_int_eq_self)

lemma pq_get_bytes:
  assumes "wbuf obj = Some b"
    and "off = obj_offset obj + (if OF_VERSION_1_2 \<le> version obj then 8 else 4)"
    and "off + 2 \<le> length b"
  shows "of_packet_queue_wire_length_get obj =
           Inr (uint (push_bit 8 (ucast (b ! off)) OR ucast (b ! (off + 1)) :: u16))"
  using assms
  by (simp add: of_packet_queue_wire_length_get_def obj_defs OF_PACKET_QUEUE_LENGTH_OFFSET_def
      of_wire_buffer_u16_get_def buf_u16_get_def)

lemma pq_set_bytes:
  assumes "wbuf obj = Some b"
    and "off = obj_offset obj + (if OF_VERSION_1_2 \<le> version obj then 8 else 4)"
    and "off + 2 \<le> length b"
    and "b' = b[off := ucast (drop_bit 8 (word_of_int n :: u16)),
                off + 1 := ucast (word_of_int n :: u16)]"
  shows "of_packet_queue_wire_length_set obj n = Inr (wbuf_update obj b')"
    using assms
    by (simp add: of_packet_queue_wire_length_set_def obj_defs OF_PACKET_QUEUE_LENGTH_OFFSET_def
        of_wire_buffer_u16_set_def buf_u16_set_def)

lemma pq_set_get:
  assumes 
     "off = obj_offset obj + (if OF_VERSION_1_2 \<le> version obj then 8 else 4)"
    and "off + 2 \<le> length b"
    and "0 \<le> n" and "n < 65536"
    and "b' = b[off := ucast (drop_bit 8 (word_of_int n :: u16)),
                off + 1 := ucast (word_of_int n :: u16)]"
  shows  "of_packet_queue_wire_length_get (wbuf_update obj b') = Inr n"
proof -
  have "buf_u16_set b off (word_of_int n) = Inr b'"
    using assms(2,5) by (simp add: buf_u16_set_def)
  then have "buf_u16_get b' off = Inr (word_of_int n)" and "length b' = length b"
    by (rule buf_u16_get_set, rule buf_u16_set_length)
  then show ?thesis
    using assms(1,2,3,4)
    by (simp add: of_packet_queue_wire_length_get_def obj_defs OF_PACKET_QUEUE_LENGTH_OFFSET_def
        of_wire_buffer_u16_get_def wbuf_update_sel uint_u16_of_int)
qed



lemma pq_get_at:
  assumes "wbuf obj = Some b"
  shows "of_packet_queue_wire_length_get obj =
         (case of_wire_buffer_u16_get b
                 (obj_offset obj + (if OF_VERSION_1_2 \<le> version obj then 8 else 4)) of
            Inl e \<Rightarrow> Inl e | Inr u16 \<Rightarrow> Inr (uint u16))"
  using assms
  by (simp add: of_packet_queue_wire_length_get_def obj_defs OF_PACKET_QUEUE_LENGTH_OFFSET_def)

lemma u16_get_frame:
  assumes "buf_u16_set b j v = Inr c" and "i + 2 \<le> j \<or> j + 2 \<le> i"
  shows "of_wire_buffer_u16_get c i = of_wire_buffer_u16_get b i"
proof -
  have len: "length c = length b"
    using assms(1) by (rule buf_u16_set_length)
  have "c ! i = b ! i"
    using assms(2) by (intro buf_u16_set_nth [OF assms(1)]) arith
  moreover have "c ! (i + 1) = b ! (i + 1)"
    using assms(2) by (intro buf_u16_set_nth [OF assms(1)]) arith
  ultimately have "buf_u16_get c i = buf_u16_get b i"
    using len by (rule buf_u16_get_cong [rotated])
  then show ?thesis
    by (simp only: of_wire_buffer_u16_get_def len)
qed

lemma pq_other_offset:
  assumes "wbuf obj = Some b"
    and "off = obj_offset obj + (if OF_VERSION_1_2 \<le> version obj then 8 else 4)"
    and "other = obj_offset obj + (if OF_VERSION_1_2 \<le> version obj then 4 else 8)"
    and "of_wire_buffer_u16_set b other v = Inr c"
  shows "of_packet_queue_wire_length_get (wbuf_update obj c) =
           of_packet_queue_wire_length_get obj"
proof -
  from assms(4) have c: "buf_u16_set b other v = Inr c"
    by (simp add: of_wire_buffer_u16_set_def split: if_splits)
  have d: "off + 2 \<le> other \<or> other + 2 \<le> off"
    unfolding assms(2,3) by (cases "OF_VERSION_1_2 \<le> version obj") simp_all
  have "of_wire_buffer_u16_get c off = of_wire_buffer_u16_get b off"
    using c d by (rule u16_get_frame)
  then show ?thesis
    unfolding assms(2)
    by (simp only: pq_get_at [OF assms(1)] pq_get_at [OF wbuf_update_sel(1)] wbuf_update_sel)
qed


text \<open>
  Claim C5. The 16-bit length field of a packet queue lies at byte offset 8 of the
  object when the version of the handle is at least 1.2 and at byte offset 4 otherwise;
  both accessors compute the offset from the version of the handle they are given.
  For every version and every 16-bit value, \<^verbatim>\<open>of_packet_queue_wire_length_set\<close>
  writes the value big-endian at that offset and \<^verbatim>\<open>of_packet_queue_wire_length_get\<close>
  then returns it; a 16-bit write at the offset of the other version does not change
  what the getter returns.
\<close>

theorem of_packet_queue_wire_length_offset:
  assumes "wbuf obj = Some b"
    and "off = obj_offset obj + (if OF_VERSION_1_2 \<le> version obj then 8 else 4)"
    and "other = obj_offset obj + (if OF_VERSION_1_2 \<le> version obj then 4 else 8)"
    and "off + 2 \<le> length b"
    and "0 \<le> n" and "n < 65536"
    and "b' = b[off := ucast (drop_bit 8 (word_of_int n :: u16)),
                off + 1 := ucast (word_of_int n :: u16)]"
  shows "of_packet_queue_wire_length_get obj =
           Inr (uint (push_bit 8 (ucast (b ! off)) OR ucast (b ! (off + 1)) :: u16)) \<and>
         of_packet_queue_wire_length_set obj n = Inr (wbuf_update obj b') \<and>
         of_packet_queue_wire_length_get (wbuf_update obj b') = Inr n \<and>
         (\<forall>v c. of_wire_buffer_u16_set b other v = Inr c \<longrightarrow>
            of_packet_queue_wire_length_get (wbuf_update obj c) =
            of_packet_queue_wire_length_get obj)"
proof (intro conjI allI impI)
  show "of_packet_queue_wire_length_get obj =
           Inr (uint (push_bit 8 (ucast (b ! off)) OR ucast (b ! (off + 1)) :: u16))"
    using assms(1,2,4) by (rule pq_get_bytes)
  show "of_packet_queue_wire_length_set obj n = Inr (wbuf_update obj b')"
    using assms(1,2,4,7) by (rule pq_set_bytes)
  show "of_packet_queue_wire_length_get (wbuf_update obj b') = Inr n"
    using assms(2,4,5,6,7) by (rule pq_set_get)
  show "of_packet_queue_wire_length_get (wbuf_update obj c) =
          of_packet_queue_wire_length_get obj"
    if "of_wire_buffer_u16_set b other v = Inr c" for v c
    using assms(1,2,3) that by (rule pq_other_offset)
qed

theorem of_packet_queue_wire_length_offset_witness:
  "of_packet_queue_wire_length_get
     (example_object [0, 0, 0, 0, 0x12, 0x34, 0, 0, 0x56, 0x78, 0, 0] 4 (OF_OBJECT_OTHER 5))
     = Inr 0x5678 \<and>
   of_packet_queue_wire_length_get
     (example_object [0, 0, 0, 0, 0x12, 0x34, 0, 0, 0x56, 0x78, 0, 0] 1 (OF_OBJECT_OTHER 5))
     = Inr 0x1234 \<and>
   of_packet_queue_wire_length_set
     (example_object [0, 0, 0, 0, 0x12, 0x34, 0, 0, 0x56, 0x78, 0, 0] 4 (OF_OBJECT_OTHER 5)) 48
     = Inr (example_object [0, 0, 0, 0, 0x12, 0x34, 0, 0, 0, 48, 0, 0] 4 (OF_OBJECT_OTHER 5)) \<and>
   of_packet_queue_wire_length_get
     (example_object [0, 0, 0, 0, 0x12, 0x34, 0, 0, 0, 48, 0, 0] 4 (OF_OBJECT_OTHER 5))
     = Inr 48"
proof -
  let ?b = "[0, 0, 0, 0, 0x12, 0x34, 0, 0, 0x56, 0x78, 0, 0] :: of_wire_buffer_t"
  have 4: "of_packet_queue_wire_length_get (example_object ?b 4 (OF_OBJECT_OTHER 5)) = Inr 0x5678 \<and>
      of_packet_queue_wire_length_set (example_object ?b 4 (OF_OBJECT_OTHER 5)) 48
        = Inr (example_object [0, 0, 0, 0, 0x12, 0x34, 0, 0, 0, 48, 0, 0] 4 (OF_OBJECT_OTHER 5)) \<and>
      of_packet_queue_wire_length_get
        (example_object [0, 0, 0, 0, 0x12, 0x34, 0, 0, 0, 48, 0, 0] 4 (OF_OBJECT_OTHER 5)) = Inr 48"
    using of_packet_queue_wire_length_offset
      [of "example_object ?b 4 (OF_OBJECT_OTHER 5)" ?b 8 4 48, OF _ _ _ _ _ _ refl]
    by (simp add: example_object_def OF_VERSION_1_2_def wbuf_update_def)
  have 1: "of_packet_queue_wire_length_get (example_object ?b 1 (OF_OBJECT_OTHER 5)) = Inr 0x1234"
    using of_packet_queue_wire_length_offset
      [of "example_object ?b 1 (OF_OBJECT_OTHER 5)" ?b 4 8 48, OF _ _ _ _ _ _ refl]
    by (simp add: example_object_def OF_VERSION_1_2_def wbuf_update_def)
  from 4 1 show ?thesis by simp
qed

subsection \<open>Writes that do not overlap\<close>

lemma buf_u32_get_frame_u32:
  assumes "buf_u32_set b j v = Inr c" and "i + 4 \<le> j \<or> j + 4 \<le> i"
  shows "buf_u32_get c i = buf_u32_get b i"
proof -
  have len: "length c = length b"
    using assms(1) by (rule buf_u32_set_length)
  have "c ! i = b ! i" "c ! (i + 1) = b ! (i + 1)" "c ! (i + 2) = b ! (i + 2)"
    "c ! (i + 3) = b ! (i + 3)"
    using assms(2) by (auto intro!: buf_u32_set_nth [OF assms(1)])
  then show ?thesis
    using len by (simp only: buf_u32_get_def)
qed

lemma buf_u32_get_frame_u16:
  assumes "buf_u16_set b j v = Inr c" and "i + 4 \<le> j \<or> j + 2 \<le> i"
  shows "buf_u32_get c i = buf_u32_get b i"
proof -
  have len: "length c = length b"
    using assms(1) by (rule buf_u16_set_length)
  have "c ! i = b ! i" "c ! (i + 1) = b ! (i + 1)" "c ! (i + 2) = b ! (i + 2)"
    "c ! (i + 3) = b ! (i + 3)"
    using assms(2) by (auto intro!: buf_u16_set_nth [OF assms(1)])
  then show ?thesis
    using len by (simp only: buf_u32_get_def)
qed

lemma buf_u16_get_frame_u32:
  assumes "buf_u32_set b j v = Inr c" and "i + 2 \<le> j \<or> j + 4 \<le> i"
  shows "buf_u16_get c i = buf_u16_get b i"
proof -
  have len: "length c = length b"
    using assms(1) by (rule buf_u32_set_length)
  have "c ! i = b ! i" "c ! (i + 1) = b ! (i + 1)"
    using assms(2) by (auto intro!: buf_u32_set_nth [OF assms(1)])
  then show ?thesis
    using len by (simp only: buf_u16_get_def)
qed

lemma buf_u16_get_frame_u16:
  assumes "buf_u16_set b j v = Inr c" and "i + 2 \<le> j \<or> j + 2 \<le> i"
  shows "buf_u16_get c i = buf_u16_get b i"
proof -
  have len: "length c = length b"
    using assms(1) by (rule buf_u16_set_length)
  have "c ! i = b ! i" "c ! (i + 1) = b ! (i + 1)"
    using assms(2) by (auto intro!: buf_u16_set_nth [OF assms(1)])
  then show ?thesis
    using len by (simp only: buf_u16_get_def)
qed

lemma buf_u32_set_ok: "i + 4 \<le> length b \<Longrightarrow> \<exists>c. buf_u32_set b i v = Inr c"
  by (simp add: buf_u32_set_def)

lemma buf_u16_set_ok: "i + 2 \<le> length b \<Longrightarrow> \<exists>c. buf_u16_set b i v = Inr c"
  by (simp add: buf_u16_set_def)

text \<open>The vendor identifier and a 32-bit sub-type written one after the other.\<close>

lemma vendor_subtype_u32_written:
  assumes "i + 12 \<le> length b"
    and "buf_u32_set b (i + 4) vendor = Inr b1"
    and "buf_u32_set b1 (i + 8) sub = Inr b2"
  shows "buf_u32_get b2 (i + 4) = Inr vendor \<and> buf_u32_get b2 (i + 8) = Inr sub \<and>
         length b2 = length b \<and> (\<forall>k. k < i + 4 \<or> i + 12 \<le> k \<longrightarrow> b2 ! k = b ! k)"
proof (intro conjI allI impI)
  have "buf_u32_get b2 (i + 4) = buf_u32_get b1 (i + 4)"
    using assms(3) by (rule buf_u32_get_frame_u32) simp
  then show "buf_u32_get b2 (i + 4) = Inr vendor"
    using buf_u32_get_set [OF assms(2)] by simp
  show "buf_u32_get b2 (i + 8) = Inr sub"
    using assms(3) by (rule buf_u32_get_set)
  show "length b2 = length b"
    using buf_u32_set_length [OF assms(2)] buf_u32_set_length [OF assms(3)] by simp
  show "b2 ! k = b ! k" if "k < i + 4 \<or> i + 12 \<le> k" for k
  proof -
    have "b2 ! k = b1 ! k"
      using that by (intro buf_u32_set_nth [OF assms(3)]) arith
    also have "b1 ! k = b ! k"
      using that by (intro buf_u32_set_nth [OF assms(2)]) arith
    finally show ?thesis .
  qed
qed

lemma vendor_subtype_u16_written:
  assumes "i + 10 \<le> length b"
    and "buf_u32_set b (i + 4) vendor = Inr b1"
    and "buf_u16_set b1 (i + 8) sub = Inr b2"
  shows "buf_u32_get b2 (i + 4) = Inr vendor \<and> buf_u16_get b2 (i + 8) = Inr sub \<and>
         length b2 = length b \<and> (\<forall>k. k < i + 4 \<or> i + 10 \<le> k \<longrightarrow> b2 ! k = b ! k)"
proof (intro conjI allI impI)
  have "buf_u32_get b2 (i + 4) = buf_u32_get b1 (i + 4)"
    using assms(3) by (rule buf_u32_get_frame_u16) simp
  then show "buf_u32_get b2 (i + 4) = Inr vendor"
    using buf_u32_get_set [OF assms(2)] by simp
  show "buf_u16_get b2 (i + 8) = Inr sub"
    using assms(3) by (rule buf_u16_get_set)
  show "length b2 = length b"
    using buf_u32_set_length [OF assms(2)] buf_u16_set_length [OF assms(3)] by simp
  show "b2 ! k = b ! k" if "k < i + 4 \<or> i + 10 \<le> k" for k
  proof -
    have "b2 ! k = b1 ! k"
      using that by (intro buf_u16_set_nth [OF assms(3)]) arith
    also have "b1 ! k = b ! k"
      using that by (intro buf_u32_set_nth [OF assms(2)]) arith
    finally show ?thesis .
  qed
qed

subsection \<open>Pushing the vendor identifier and the sub-type\<close>

lemmas field_set_defs =
  of_action_bsn_mirror_experimenter_set_def of_action_bsn_mirror_subtype_set_def
  of_action_id_bsn_mirror_experimenter_set_def of_action_id_bsn_mirror_subtype_set_def
  of_action_bsn_set_tunnel_dst_experimenter_set_def of_action_bsn_set_tunnel_dst_subtype_set_def
  of_action_id_bsn_set_tunnel_dst_experimenter_set_def
  of_action_id_bsn_set_tunnel_dst_subtype_set_def
  of_action_nicira_dec_ttl_experimenter_set_def of_action_nicira_dec_ttl_subtype_set_def
  of_action_id_nicira_dec_ttl_experimenter_set_def of_action_id_nicira_dec_ttl_subtype_set_def

lemma push_pair_u32:
  assumes "wbuf obj = Some b" and "obj_offset obj + 12 \<le> length b"
  shows "\<exists>b'. push_pair experimenter_field_set vendor subtype_u32_field_set sub obj
                = Inr (wbuf_update obj b') \<and>
              buf_u32_get b' (obj_offset obj + 4) = Inr vendor \<and>
              buf_u32_get b' (obj_offset obj + 8) = Inr sub \<and>
              length b' = length b \<and>
              (\<forall>k. k < obj_offset obj + 4 \<or> obj_offset obj + 12 \<le> k \<longrightarrow> b' ! k = b ! k)"
proof -
  obtain b1 where b1: "buf_u32_set b (obj_offset obj + 4) vendor = Inr b1"
    using buf_u32_set_ok [of "obj_offset obj + 4" b vendor] assms(2) by auto
  have l1: "length b1 = length b"
    using b1 by (rule buf_u32_set_length)
  obtain b2 where b2: "buf_u32_set b1 (obj_offset obj + 8) sub = Inr b2"
    using buf_u32_set_ok [of "obj_offset obj + 8" b1 sub] assms(2) l1 by auto
  have 1: "experimenter_field_set obj vendor = Inr (wbuf_update obj b1)"
    using assms b1
    by (simp add: experimenter_field_set_def obj_defs of_wire_buffer_u32_set_def)
  have 2: "subtype_u32_field_set (wbuf_update obj b1) sub = Inr (wbuf_update obj b2)"
    using assms(2) b2 l1
    by (simp add: subtype_u32_field_set_def obj_defs of_wire_buffer_u32_set_def wbuf_update_sel)
      (simp add: wbuf_update_def)
  have "push_pair experimenter_field_set vendor subtype_u32_field_set sub obj
          = Inr (wbuf_update obj b2)"
    by (simp add: push_pair_def 1 2)
  then show ?thesis
    using vendor_subtype_u32_written [OF assms(2) b1 b2] by blast
qed

lemma push_pair_u16:
  assumes "wbuf obj = Some b" and "obj_offset obj + 10 \<le> length b"
  shows "\<exists>b'. push_pair experimenter_field_set vendor subtype_u16_field_set sub obj
                = Inr (wbuf_update obj b') \<and>
              buf_u32_get b' (obj_offset obj + 4) = Inr vendor \<and>
              buf_u16_get b' (obj_offset obj + 8) = Inr sub \<and>
              length b' = length b \<and>
              (\<forall>k. k < obj_offset obj + 4 \<or> obj_offset obj + 10 \<le> k \<longrightarrow> b' ! k = b ! k)"
proof -
  obtain b1 where b1: "buf_u32_set b (obj_offset obj + 4) vendor = Inr b1"
    using buf_u32_set_ok [of "obj_offset obj + 4" b vendor] assms(2) by auto
  have l1: "length b1 = length b"
    using b1 by (rule buf_u32_set_length)
  obtain b2 where b2: "buf_u16_set b1 (obj_offset obj + 8) sub = Inr b2"
    using buf_u16_set_ok [of "obj_offset obj + 8" b1 sub] assms(2) l1 by auto
  have 1: "experimenter_field_set obj vendor = Inr (wbuf_update obj b1)"
    using assms b1
    by (simp add: experimenter_field_set_def obj_defs of_wire_buffer_u32_set_def)
  have 2: "subtype_u16_field_set (wbuf_update obj b1) sub = Inr (wbuf_update obj b2)"
    using assms(2) b2 l1
    by (simp add: subtype_u16_field_set_def obj_defs of_wire_buffer_u16_set_def wbuf_update_sel)
      (simp add: wbuf_update_def)
  have "push_pair experimenter_field_set vendor subtype_u16_field_set sub obj
          = Inr (wbuf_update obj b2)"
    by (simp add: push_pair_def 1 2)
  then show ?thesis
    using vendor_subtype_u16_written [OF assms(2) b1 b2] by blast
qed

lemma push_result:
  "of_extension_object_wire_push obj = Inr (rc, obj') \<Longrightarrow> rc = OF_ERROR_NONE"
  by (auto simp: of_extension_object_wire_push_def split: sum.splits)

lemma push_of_pair:
  "of_extension_object_wire_push obj =
     (case
        (if object_id obj = OF_ACTION_BSN_MIRROR \<or> object_id obj = OF_ACTION_ID_BSN_MIRROR then
           push_pair experimenter_field_set OF_EXPERIMENTER_ID_BSN subtype_u32_field_set 1 obj
         else if object_id obj = OF_ACTION_BSN_SET_TUNNEL_DST \<or>
                 object_id obj = OF_ACTION_ID_BSN_SET_TUNNEL_DST then
           push_pair experimenter_field_set OF_EXPERIMENTER_ID_BSN subtype_u32_field_set 2 obj
         else if object_id obj = OF_ACTION_NICIRA_DEC_TTL \<or>
                 object_id obj = OF_ACTION_ID_NICIRA_DEC_TTL then
           push_pair experimenter_field_set OF_EXPERIMENTER_ID_NICIRA subtype_u16_field_set 18 obj
         else Inr obj)
      of Inl e \<Rightarrow> Inl e | Inr obj' \<Rightarrow> Inr (OF_ERROR_NONE, obj'))"
  by (simp add: of_extension_object_wire_push_def field_set_defs)

text \<open>
  Claim C10. \<^verbatim>\<open>of_extension_object_wire_push\<close> never returns a code other than
  \<^verbatim>\<open>OF_ERROR_NONE\<close>. For an object whose identifier is none of the six registered
  ones it returns that code and the object as it was, writing nothing. For each of the
  six registered identifiers, on a buffer that holds the two fields, it returns that
  code after writing the identifier's pair and nothing else: BSN and the 32-bit
  sub-type 1 for the mirror action and action-id, BSN and the 32-bit sub-type 2 for the
  set-tunnel-dst action and action-id, Nicira and the 16-bit sub-type 18 for the
  decrement-TTL action and action-id, the vendor at offset 4 and the sub-type at
  offset 8 of the object.
\<close>

theorem of_extension_object_wire_push_pairs:
  "(object_id obj \<notin> {OF_ACTION_BSN_MIRROR, OF_ACTION_ID_BSN_MIRROR,
        OF_ACTION_BSN_SET_TUNNEL_DST, OF_ACTION_ID_BSN_SET_TUNNEL_DST,
        OF_ACTION_NICIRA_DEC_TTL, OF_ACTION_ID_NICIRA_DEC_TTL} \<longrightarrow>
      of_extension_object_wire_push obj = Inr (OF_ERROR_NONE, obj)) \<and>
   (\<forall>rc obj'. of_extension_object_wire_push obj = Inr (rc, obj') \<longrightarrow> rc = OF_ERROR_NONE) \<and>
   (\<forall>b. wbuf obj = Some b \<and> obj_offset obj + 12 \<le> length b \<and>
        (object_id obj = OF_ACTION_BSN_MIRROR \<or> object_id obj = OF_ACTION_ID_BSN_MIRROR) \<longrightarrow>
      (\<exists>b'. of_extension_object_wire_push obj = Inr (OF_ERROR_NONE, wbuf_update obj b') \<and>
            buf_u32_get b' (obj_offset obj + 4) = Inr OF_EXPERIMENTER_ID_BSN \<and>
            buf_u32_get b' (obj_offset obj + 8) = Inr 1 \<and>
            length b' = length b \<and>
            (\<forall>k. k < obj_offset obj + 4 \<or> obj_offset obj + 12 \<le> k \<longrightarrow> b' ! k = b ! k))) \<and>
   (\<forall>b. wbuf obj = Some b \<and> obj_offset obj + 12 \<le> length b \<and>
        (object_id obj = OF_ACTION_BSN_SET_TUNNEL_DST \<or>
         object_id obj = OF_ACTION_ID_BSN_SET_TUNNEL_DST) \<longrightarrow>
      (\<exists>b'. of_extension_object_wire_push obj = Inr (OF_ERROR_NONE, wbuf_update obj b') \<and>
            buf_u32_get b' (obj_offset obj + 4) = Inr OF_EXPERIMENTER_ID_BSN \<and>
            buf_u32_get b' (obj_offset obj + 8) = Inr 2 \<and>
            length b' = length b \<and>
            (\<forall>k. k < obj_offset obj + 4 \<or> obj_offset obj + 12 \<le> k \<longrightarrow> b' ! k = b ! k))) \<and>
   (\<forall>b. wbuf obj = Some b \<and> obj_offset obj + 10 \<le> length b \<and>
        (object_id obj = OF_ACTION_NICIRA_DEC_TTL \<or>
         object_id obj = OF_ACTION_ID_NICIRA_DEC_TTL) \<longrightarrow>
      (\<exists>b'. of_extension_object_wire_push obj = Inr (OF_ERROR_NONE, wbuf_update obj b') \<and>
            buf_u32_get b' (obj_offset obj + 4) = Inr OF_EXPERIMENTER_ID_NICIRA \<and>
            buf_u16_get b' (obj_offset obj + 8) = Inr 18 \<and>
            length b' = length b \<and>
            (\<forall>k. k < obj_offset obj + 4 \<or> obj_offset obj + 10 \<le> k \<longrightarrow> b' ! k = b ! k)))"
proof (intro conjI allI impI)
  show "of_extension_object_wire_push obj = Inr (OF_ERROR_NONE, obj)"
    if "object_id obj \<notin> {OF_ACTION_BSN_MIRROR, OF_ACTION_ID_BSN_MIRROR,
        OF_ACTION_BSN_SET_TUNNEL_DST, OF_ACTION_ID_BSN_SET_TUNNEL_DST,
        OF_ACTION_NICIRA_DEC_TTL, OF_ACTION_ID_NICIRA_DEC_TTL}"
    using that by (simp add: push_of_pair)
  show "rc = OF_ERROR_NONE" if "of_extension_object_wire_push obj = Inr (rc, obj')" for rc obj'
    using that by (rule push_result)
  show "\<exists>b'. of_extension_object_wire_push obj = Inr (OF_ERROR_NONE, wbuf_update obj b') \<and>
            buf_u32_get b' (obj_offset obj + 4) = Inr OF_EXPERIMENTER_ID_BSN \<and>
            buf_u32_get b' (obj_offset obj + 8) = Inr 1 \<and>
            length b' = length b \<and>
            (\<forall>k. k < obj_offset obj + 4 \<or> obj_offset obj + 12 \<le> k \<longrightarrow> b' ! k = b ! k)"
    if "wbuf obj = Some b \<and> obj_offset obj + 12 \<le> length b \<and>
        (object_id obj = OF_ACTION_BSN_MIRROR \<or> object_id obj = OF_ACTION_ID_BSN_MIRROR)" for b
  proof -
    from that obtain b' where
      "push_pair experimenter_field_set OF_EXPERIMENTER_ID_BSN subtype_u32_field_set 1 obj
         = Inr (wbuf_update obj b')"
      and rest: "buf_u32_get b' (obj_offset obj + 4) = Inr OF_EXPERIMENTER_ID_BSN"
        "buf_u32_get b' (obj_offset obj + 8) = Inr 1" "length b' = length b"
        "\<forall>k. k < obj_offset obj + 4 \<or> obj_offset obj + 12 \<le> k \<longrightarrow> b' ! k = b ! k"
      using push_pair_u32 [of obj b OF_EXPERIMENTER_ID_BSN 1] by blast
    then have "of_extension_object_wire_push obj = Inr (OF_ERROR_NONE, wbuf_update obj b')"
      using that by (simp add: push_of_pair)
    with rest show ?thesis by blast
  qed
  show "\<exists>b'. of_extension_object_wire_push obj = Inr (OF_ERROR_NONE, wbuf_update obj b') \<and>
            buf_u32_get b' (obj_offset obj + 4) = Inr OF_EXPERIMENTER_ID_BSN \<and>
            buf_u32_get b' (obj_offset obj + 8) = Inr 2 \<and>
            length b' = length b \<and>
            (\<forall>k. k < obj_offset obj + 4 \<or> obj_offset obj + 12 \<le> k \<longrightarrow> b' ! k = b ! k)"
    if "wbuf obj = Some b \<and> obj_offset obj + 12 \<le> length b \<and>
        (object_id obj = OF_ACTION_BSN_SET_TUNNEL_DST \<or>
         object_id obj = OF_ACTION_ID_BSN_SET_TUNNEL_DST)" for b
  proof -
    from that obtain b' where
      "push_pair experimenter_field_set OF_EXPERIMENTER_ID_BSN subtype_u32_field_set 2 obj
         = Inr (wbuf_update obj b')"
      and rest: "buf_u32_get b' (obj_offset obj + 4) = Inr OF_EXPERIMENTER_ID_BSN"
        "buf_u32_get b' (obj_offset obj + 8) = Inr 2" "length b' = length b"
        "\<forall>k. k < obj_offset obj + 4 \<or> obj_offset obj + 12 \<le> k \<longrightarrow> b' ! k = b ! k"
      using push_pair_u32 [of obj b OF_EXPERIMENTER_ID_BSN 2] by blast
    then have "of_extension_object_wire_push obj = Inr (OF_ERROR_NONE, wbuf_update obj b')"
      using that by (auto simp: push_of_pair)
    with rest show ?thesis by blast
  qed
  show "\<exists>b'. of_extension_object_wire_push obj = Inr (OF_ERROR_NONE, wbuf_update obj b') \<and>
            buf_u32_get b' (obj_offset obj + 4) = Inr OF_EXPERIMENTER_ID_NICIRA \<and>
            buf_u16_get b' (obj_offset obj + 8) = Inr 18 \<and>
            length b' = length b \<and>
            (\<forall>k. k < obj_offset obj + 4 \<or> obj_offset obj + 10 \<le> k \<longrightarrow> b' ! k = b ! k)"
    if "wbuf obj = Some b \<and> obj_offset obj + 10 \<le> length b \<and>
        (object_id obj = OF_ACTION_NICIRA_DEC_TTL \<or>
         object_id obj = OF_ACTION_ID_NICIRA_DEC_TTL)" for b
  proof -
    from that obtain b' where
      "push_pair experimenter_field_set OF_EXPERIMENTER_ID_NICIRA subtype_u16_field_set 18 obj
         = Inr (wbuf_update obj b')"
      and rest: "buf_u32_get b' (obj_offset obj + 4) = Inr OF_EXPERIMENTER_ID_NICIRA"
        "buf_u16_get b' (obj_offset obj + 8) = Inr 18" "length b' = length b"
        "\<forall>k. k < obj_offset obj + 4 \<or> obj_offset obj + 10 \<le> k \<longrightarrow> b' ! k = b ! k"
      using push_pair_u16 [of obj b OF_EXPERIMENTER_ID_NICIRA 18] by blast
    then have "of_extension_object_wire_push obj = Inr (OF_ERROR_NONE, wbuf_update obj b')"
      using that by (auto simp: push_of_pair)
    with rest show ?thesis by blast
  qed
qed

theorem of_extension_object_wire_push_pairs_witness:
  "of_extension_object_wire_push
     (example_object [0xff, 0xff, 0, 16, 0, 0, 0, 0, 0, 0, 0, 0, 0, 0, 0, 0] 4 OF_ACTION_BSN_MIRROR)
   = Inr (OF_ERROR_NONE,
       example_object [0xff, 0xff, 0, 16, 0, 0x5c, 0x16, 0xc7, 0, 0, 0, 1, 0, 0, 0, 0] 4
         OF_ACTION_BSN_MIRROR) \<and>
   of_extension_object_wire_push
     (example_object [0xff, 0xff, 0, 16, 0, 0, 0, 0, 0, 0, 0, 0, 0, 0, 0, 0] 4 OF_ACTION_EXPERIMENTER)
   = Inr (OF_ERROR_NONE,
       example_object [0xff, 0xff, 0, 16, 0, 0, 0, 0, 0, 0, 0, 0, 0, 0, 0, 0] 4
         OF_ACTION_EXPERIMENTER)"
proof -
  let ?b = "[0xff, 0xff, 0, 16, 0, 0, 0, 0, 0, 0, 0, 0, 0, 0, 0, 0] :: of_wire_buffer_t"
  have 1: "of_extension_object_wire_push (example_object ?b 4 OF_ACTION_EXPERIMENTER)
           = Inr (OF_ERROR_NONE, example_object ?b 4 OF_ACTION_EXPERIMENTER)"
    using of_extension_object_wire_push_pairs [of "example_object ?b 4 OF_ACTION_EXPERIMENTER"]
    by (simp add: example_object_def)
  have 2: "of_extension_object_wire_push (example_object ?b 4 OF_ACTION_BSN_MIRROR)
   = Inr (OF_ERROR_NONE,
       example_object [0xff, 0xff, 0, 16, 0, 0x5c, 0x16, 0xc7, 0, 0, 0, 1, 0, 0, 0, 0] 4
         OF_ACTION_BSN_MIRROR)"
    by (simp add: push_of_pair push_pair_def experimenter_field_set_def subtype_u32_field_set_def
        obj_defs of_wire_buffer_u32_set_def buf_u32_set_def example_object_def wbuf_update_def
        OF_EXPERIMENTER_ID_BSN_def)
  from 1 2 show ?thesis by simp
qed

subsection \<open>The OXM header word\<close>

lemma low8_mask: "(0xff :: u32) = mask 8"
  by (simp add: mask_eq_exp_minus_1)

lemma low24_mask: "(0xffffff :: u32) = mask 24"
  by (simp add: mask_eq_exp_minus_1)

lemma high24_mask: "(0xffffff00 :: u32) = NOT (mask 8)"
  by (simp add: mask_eq_exp_minus_1)

lemma oxm_length_set_or:
  "OF_OXM_LENGTH_SET hdr val = (hdr AND NOT (mask 8)) OR (word_of_int val AND mask 8)"
  unfolding OF_OXM_LENGTH_SET_def low8_mask high24_mask
  by (rule disjunctive_add) (auto simp: bit_simps)

lemma oxm_masked_type_set_or:
  "OF_OXM_MASKED_TYPE_SET hdr val = (hdr AND mask 8) OR push_bit 8 (word_of_int val AND mask 24)"
  unfolding OF_OXM_MASKED_TYPE_SET_def low8_mask low24_mask
  by (rule disjunctive_add) (auto simp: bit_simps)

lemma oxm_length_get_set:
  "OF_OXM_LENGTH_GET (OF_OXM_LENGTH_SET hdr val) = word_of_int val AND mask 8"
  unfolding OF_OXM_LENGTH_GET_def oxm_length_set_or low8_mask
  by (rule bit_word_eqI) (auto simp: bit_simps)

lemma oxm_masked_type_get_length_set:
  "OF_OXM_MASKED_TYPE_GET (OF_OXM_LENGTH_SET hdr val) = OF_OXM_MASKED_TYPE_GET hdr"
  unfolding OF_OXM_MASKED_TYPE_GET_def oxm_length_set_or low24_mask
  by (rule bit_word_eqI) (auto simp: bit_simps)

lemma oxm_masked_type_get_set:
  "OF_OXM_MASKED_TYPE_GET (OF_OXM_MASKED_TYPE_SET hdr val) = word_of_int val AND mask 24"
  unfolding OF_OXM_MASKED_TYPE_GET_def oxm_masked_type_set_or low24_mask
  by (rule bit_word_eqI) (auto simp: bit_simps)

lemma oxm_length_get_masked_type_set:
  "OF_OXM_LENGTH_GET (OF_OXM_MASKED_TYPE_SET hdr val) = OF_OXM_LENGTH_GET hdr"
  unfolding OF_OXM_LENGTH_GET_def oxm_masked_type_set_or low8_mask
  by (rule bit_word_eqI) (auto simp: bit_simps)

lemma uint_low8: "0 \<le> n \<Longrightarrow> n < 256 \<Longrightarrow> uint (word_of_int n AND mask 8 :: u32) = n"
  by (simp add: and_mask_wi uint_word_of_int_eq take_bit_int_eq_self)

lemma uint_low24: "0 \<le> n \<Longrightarrow> n < 16777216 \<Longrightarrow> uint (word_of_int n AND mask 24 :: u32) = n"
  by (simp add: and_mask_wi uint_word_of_int_eq take_bit_int_eq_self)

lemma wbuf_update_twice: "wbuf_update (wbuf_update obj b1) b2 = wbuf_update obj b2"
  by (simp add: wbuf_update_def)

lemma oxm_hdr_read:
  assumes "wbuf obj = Some b" and "obj_offset obj + 4 \<le> length b"
  shows "\<exists>h. GET_OXM_TYPE_LEN obj = Inr (b, h)"
  using assms
  by (simp add: GET_OXM_TYPE_LEN_def obj_defs OXM_HDR_OFFSET_def of_wire_buffer_u32_get_def
      buf_u32_get_def)

lemma oxm_hdr_rewrite:
  assumes "GET_OXM_TYPE_LEN obj = Inr (b, h)"
  shows "\<exists>b'. of_wire_buffer_u32_set b (OF_OBJECT_ABSOLUTE_OFFSET obj OXM_HDR_OFFSET) h' = Inr b' \<and>
              GET_OXM_TYPE_LEN (wbuf_update obj b') = Inr (b', h')"
proof -
  have w: "wbuf obj = Some b" and len: "obj_offset obj + 4 \<le> length b"
    using assms
    by (auto simp: GET_OXM_TYPE_LEN_def obj_defs OXM_HDR_OFFSET_def of_wire_buffer_u32_get_def
        split: option.splits sum.splits if_splits)
  obtain b' where b': "buf_u32_set b (obj_offset obj) h' = Inr b'"
    using buf_u32_set_ok [of "obj_offset obj" b h'] len by auto
  have "buf_u32_get b' (obj_offset obj) = Inr h'" and "length b' = length b"
    using b' by (rule buf_u32_get_set, rule buf_u32_set_length)
  then have "GET_OXM_TYPE_LEN (wbuf_update obj b') = Inr (b', h')"
    using len
    by (simp add: GET_OXM_TYPE_LEN_def obj_defs OXM_HDR_OFFSET_def of_wire_buffer_u32_get_def
        wbuf_update_sel)
  moreover have "of_wire_buffer_u32_set b (OF_OBJECT_ABSOLUTE_OFFSET obj OXM_HDR_OFFSET) h' = Inr b'"
    using b' len by (simp add: obj_defs OXM_HDR_OFFSET_def of_wire_buffer_u32_set_def)
  ultimately show ?thesis by blast
qed

lemma oxm_length_set_hdr:
  assumes "GET_OXM_TYPE_LEN obj = Inr (b, h)" and "0 \<le> n" and "n < 256"
  shows "\<exists>b'. of_oxm_wire_length_set obj n = Inr (wbuf_update obj b') \<and>
              GET_OXM_TYPE_LEN (wbuf_update obj b') = Inr (b', OF_OXM_LENGTH_SET h n)"
proof -
  obtain b' where
    "of_wire_buffer_u32_set b (OF_OBJECT_ABSOLUTE_OFFSET obj OXM_HDR_OFFSET)
       (OF_OXM_LENGTH_SET h n) = Inr b'"
    and g: "GET_OXM_TYPE_LEN (wbuf_update obj b') = Inr (b', OF_OXM_LENGTH_SET h n)"
    using oxm_hdr_rewrite [OF assms(1)] by blast
  then have "of_oxm_wire_length_set obj n = Inr (wbuf_update obj b')"
    using assms by (simp add: of_oxm_wire_length_set_def)
  with g show ?thesis by blast
qed

lemma oxm_object_id_set_hdr:
  assumes "GET_OXM_TYPE_LEN obj = Inr (b, h)" and "OF_OXM_VALID_ID T oid"
    and "0 \<le> of_object_to_wire_type T oid (version obj)"
  shows "\<exists>b'. of_oxm_wire_object_id_set T obj oid = Inr (wbuf_update obj b') \<and>
              GET_OXM_TYPE_LEN (wbuf_update obj b') =
                Inr (b', OF_OXM_MASKED_TYPE_SET h (of_object_to_wire_type T oid (version obj)))"
proof -
  obtain b' where
    "of_wire_buffer_u32_set b (OF_OBJECT_ABSOLUTE_OFFSET obj OXM_HDR_OFFSET)
       (OF_OXM_MASKED_TYPE_SET h (of_object_to_wire_type T oid (version obj))) = Inr b'"
    and g: "GET_OXM_TYPE_LEN (wbuf_update obj b') =
              Inr (b', OF_OXM_MASKED_TYPE_SET h (of_object_to_wire_type T oid (version obj)))"
    using oxm_hdr_rewrite [OF assms(1)] by blast
  then have "of_oxm_wire_object_id_set T obj oid = Inr (wbuf_update obj b')"
    using assms by (simp add: of_oxm_wire_object_id_set_def)
  with g show ?thesis by blast
qed

lemma oxm_getters_hdr:
  assumes "GET_OXM_TYPE_LEN obj = Inr (b, h)"
  shows "of_oxm_wire_length_get obj = Inr (uint (OF_OXM_LENGTH_GET h))"
    and "of_oxm_wire_object_id_get T obj =
           Inr (of_oxm_to_object_id T (uint (OF_OXM_MASKED_TYPE_GET h)) (version obj))"
  using assms by (simp_all add: of_oxm_wire_length_get_def of_oxm_wire_object_id_get_def)

lemma oxm_length_set_isolated:
  assumes "of_oxm_wire_length_set obj n = Inr obj1"
  shows "of_oxm_wire_object_id_get T obj1 = of_oxm_wire_object_id_get T obj"
proof -
  from assms obtain b h where g: "GET_OXM_TYPE_LEN obj = Inr (b, h)" and n: "0 \<le> n" "n < 256"
    by (auto simp: of_oxm_wire_length_set_def split: if_splits sum.splits)
  obtain b' where "of_oxm_wire_length_set obj n = Inr (wbuf_update obj b')"
    and g': "GET_OXM_TYPE_LEN (wbuf_update obj b') = Inr (b', OF_OXM_LENGTH_SET h n)"
    using oxm_length_set_hdr [OF g n] by blast
  with assms have "obj1 = wbuf_update obj b'"
    by simp
  then show ?thesis
    by (simp add: oxm_getters_hdr(2) [OF g] oxm_getters_hdr(2) [OF g']
        oxm_masked_type_get_length_set wbuf_update_sel)
qed

lemma oxm_object_id_set_isolated:
  assumes "of_oxm_wire_object_id_set T obj oid = Inr obj1"
  shows "of_oxm_wire_length_get obj1 = of_oxm_wire_length_get obj"
proof -
  from assms obtain b h where g: "GET_OXM_TYPE_LEN obj = Inr (b, h)"
    and v: "OF_OXM_VALID_ID T oid" "0 \<le> of_object_to_wire_type T oid (version obj)"
    by (auto simp: of_oxm_wire_object_id_set_def Let_def split: if_splits sum.splits)
  obtain b' where "of_oxm_wire_object_id_set T obj oid = Inr (wbuf_update obj b')"
    and g': "GET_OXM_TYPE_LEN (wbuf_update obj b') =
               Inr (b', OF_OXM_MASKED_TYPE_SET h (of_object_to_wire_type T oid (version obj)))"
    using oxm_object_id_set_hdr [OF g v] by blast
  with assms have "obj1 = wbuf_update obj b'"
    by simp
  then show ?thesis
    by (simp add: oxm_getters_hdr(1) [OF g] oxm_getters_hdr(1) [OF g']
        oxm_length_get_masked_type_set)
qed

lemma oxm_object_id_set_get:
  assumes "GET_OXM_TYPE_LEN obj = Inr (b, h)" and "oxm_map_consistent T (version obj) oid"
  shows "\<exists>obj1 b1 h1. of_oxm_wire_object_id_set T obj oid = Inr obj1 \<and>
           GET_OXM_TYPE_LEN obj1 = Inr (b1, h1) \<and> version obj1 = version obj \<and>
           of_oxm_wire_object_id_get T obj1 = Inr oid"
proof -
  let ?wt = "of_object_to_wire_type T oid (version obj)"
  from assms(2) have v: "OF_OXM_VALID_ID T oid" "0 \<le> ?wt" and lt: "?wt < 16777216"
    and inv: "of_oxm_to_object_id T ?wt (version obj) = oid"
    by (simp_all add: oxm_map_consistent_def Let_def)
  obtain b' where s: "of_oxm_wire_object_id_set T obj oid = Inr (wbuf_update obj b')"
    and g': "GET_OXM_TYPE_LEN (wbuf_update obj b') = Inr (b', OF_OXM_MASKED_TYPE_SET h ?wt)"
    using oxm_object_id_set_hdr [OF assms(1) v] by blast
  have "of_oxm_wire_object_id_get T (wbuf_update obj b') = Inr oid"
    using v(2) lt inv
    by (simp add: oxm_getters_hdr(2) [OF g'] oxm_masked_type_get_set uint_low24 wbuf_update_sel)
  with s g' show ?thesis
    by (blast intro: wbuf_update_sel(3))
qed

lemma oxm_length_set_get:
  assumes "GET_OXM_TYPE_LEN obj = Inr (b, h)" and "0 \<le> n" and "n < 256"
  shows "\<exists>obj1 b1 h1. of_oxm_wire_length_set obj n = Inr obj1 \<and>
           GET_OXM_TYPE_LEN obj1 = Inr (b1, h1) \<and> version obj1 = version obj \<and>
           of_oxm_wire_length_get obj1 = Inr n"
proof -
  obtain b' where s: "of_oxm_wire_length_set obj n = Inr (wbuf_update obj b')"
    and g': "GET_OXM_TYPE_LEN (wbuf_update obj b') = Inr (b', OF_OXM_LENGTH_SET h n)"
    using oxm_length_set_hdr [OF assms] by blast
  have "of_oxm_wire_length_get (wbuf_update obj b') = Inr n"
    using assms(2,3)
    by (simp add: oxm_getters_hdr(1) [OF g'] oxm_length_get_set uint_low8)
  with s g' show ?thesis
    by (blast intro: wbuf_update_sel(3))
qed

lemmas oxm_eval_defs = of_oxm_wire_object_id_set_def of_oxm_wire_length_set_def
  of_oxm_wire_object_id_get_def of_oxm_wire_length_get_def GET_OXM_TYPE_LEN_def obj_defs
  OXM_HDR_OFFSET_def of_wire_buffer_u32_get_def of_wire_buffer_u32_set_def buf_u32_get_def
  buf_u32_set_def OF_OXM_MASKED_TYPE_SET_def OF_OXM_MASKED_TYPE_GET_def OF_OXM_LENGTH_SET_def
  OF_OXM_LENGTH_GET_def example_object_def example_maps_def wbuf_update_def

text \<open>
  Claim C4. Bit isolation of the OXM header: for an OXM identifier \<open>X\<close> that the OXM
  maps take to a 24-bit masked type and back, and a length \<open>n\<close> from 0 up to 255,
  setting the identifier and the length on the same object, in either order, succeeds
  and leaves both subfields of the 32-bit header word right:
  \<^verbatim>\<open>of_oxm_wire_object_id_get\<close> then returns \<open>X\<close> and \<^verbatim>\<open>of_oxm_wire_length_get\<close>
  returns \<open>n\<close>. The length setter never changes what the identifier getter returns,
  and the identifier setter never changes what the length getter returns.
\<close>

theorem of_oxm_wire_fields_isolated:
  assumes "wbuf obj = Some b" and "obj_offset obj + 4 \<le> length b"
    and "oxm_map_consistent T (version obj) X"
    and "0 \<le> n" and "n < 256"
  shows "(\<exists>obj1 obj2. of_oxm_wire_object_id_set T obj X = Inr obj1 \<and>
            of_oxm_wire_length_set obj1 n = Inr obj2 \<and>
            of_oxm_wire_object_id_get T obj2 = Inr X \<and>
            of_oxm_wire_length_get obj2 = Inr n) \<and>
         (\<exists>obj1 obj2. of_oxm_wire_length_set obj n = Inr obj1 \<and>
            of_oxm_wire_object_id_set T obj1 X = Inr obj2 \<and>
            of_oxm_wire_object_id_get T obj2 = Inr X \<and>
            of_oxm_wire_length_get obj2 = Inr n) \<and>
         (\<forall>obj1. of_oxm_wire_length_set obj n = Inr obj1 \<longrightarrow>
            of_oxm_wire_object_id_get T obj1 = of_oxm_wire_object_id_get T obj) \<and>
         (\<forall>obj1. of_oxm_wire_object_id_set T obj X = Inr obj1 \<longrightarrow>
            of_oxm_wire_length_get obj1 = of_oxm_wire_length_get obj)"
proof (intro conjI allI impI)
  obtain h where g: "GET_OXM_TYPE_LEN obj = Inr (b, h)"
    using oxm_hdr_read [OF assms(1,2)] by blast
  show "\<exists>obj1 obj2. of_oxm_wire_object_id_set T obj X = Inr obj1 \<and>
          of_oxm_wire_length_set obj1 n = Inr obj2 \<and>
          of_oxm_wire_object_id_get T obj2 = Inr X \<and> of_oxm_wire_length_get obj2 = Inr n"
  proof -
    obtain obj1 b1 h1 where 1: "of_oxm_wire_object_id_set T obj X = Inr obj1"
      and g1: "GET_OXM_TYPE_LEN obj1 = Inr (b1, h1)"
      and x1: "of_oxm_wire_object_id_get T obj1 = Inr X"
      using oxm_object_id_set_get [OF g assms(3)] by blast
    obtain obj2 where 2: "of_oxm_wire_length_set obj1 n = Inr obj2"
      and n2: "of_oxm_wire_length_get obj2 = Inr n"
      using oxm_length_set_get [OF g1 assms(4,5)] by blast
    have "of_oxm_wire_object_id_get T obj2 = Inr X"
      using oxm_length_set_isolated [OF 2, of T] x1 by simp
    with 1 2 n2 show ?thesis by blast
  qed
  show "\<exists>obj1 obj2. of_oxm_wire_length_set obj n = Inr obj1 \<and>
          of_oxm_wire_object_id_set T obj1 X = Inr obj2 \<and>
          of_oxm_wire_object_id_get T obj2 = Inr X \<and> of_oxm_wire_length_get obj2 = Inr n"
  proof -
    obtain obj1 b1 h1 where 1: "of_oxm_wire_length_set obj n = Inr obj1"
      and g1: "GET_OXM_TYPE_LEN obj1 = Inr (b1, h1)"
      and v1: "version obj1 = version obj"
      and n1: "of_oxm_wire_length_get obj1 = Inr n"
      using oxm_length_set_get [OF g assms(4,5)] by blast
    have c1: "oxm_map_consistent T (version obj1) X"
      using assms(3) v1 by simp
    obtain obj2 where 2: "of_oxm_wire_object_id_set T obj1 X = Inr obj2"
      and x2: "of_oxm_wire_object_id_get T obj2 = Inr X"
      using oxm_object_id_set_get [OF g1 c1] by blast
    have "of_oxm_wire_length_get obj2 = Inr n"
      using oxm_object_id_set_isolated [OF 2] n1 by simp
    with 1 2 x2 show ?thesis by blast
  qed
  show "of_oxm_wire_object_id_get T obj1 = of_oxm_wire_object_id_get T obj"
    if "of_oxm_wire_length_set obj n = Inr obj1" for obj1
    using that by (rule oxm_length_set_isolated)
  show "of_oxm_wire_length_get obj1 = of_oxm_wire_length_get obj"
    if "of_oxm_wire_object_id_set T obj X = Inr obj1" for obj1
    using that by (rule oxm_object_id_set_isolated)
qed

theorem of_oxm_wire_fields_isolated_witness:
  "oxm_map_consistent example_maps 4 (OF_OBJECT_OTHER 100) \<and>
   of_oxm_wire_object_id_set example_maps
     (example_object [0, 0, 0, 0] 4 (OF_OBJECT_OTHER 100)) (OF_OBJECT_OTHER 100)
     = Inr (example_object [0x80, 0, 0, 0] 4 (OF_OBJECT_OTHER 100)) \<and>
   of_oxm_wire_length_set (example_object [0x80, 0, 0, 0] 4 (OF_OBJECT_OTHER 100)) 17
     = Inr (example_object [0x80, 0, 0, 17] 4 (OF_OBJECT_OTHER 100)) \<and>
   of_oxm_wire_object_id_get example_maps
     (example_object [0x80, 0, 0, 17] 4 (OF_OBJECT_OTHER 100)) = Inr (OF_OBJECT_OTHER 100) \<and>
   of_oxm_wire_length_get (example_object [0x80, 0, 0, 17] 4 (OF_OBJECT_OTHER 100)) = Inr 17"
proof -
  let ?o0 = "example_object [0, 0, 0, 0] 4 (OF_OBJECT_OTHER 100)"
  let ?o1 = "example_object [0x80, 0, 0, 0] 4 (OF_OBJECT_OTHER 100)"
  let ?o2 = "example_object [0x80, 0, 0, 17] 4 (OF_OBJECT_OTHER 100)"
  have c: "oxm_map_consistent example_maps 4 (OF_OBJECT_OTHER 100)"
    by (simp add: oxm_map_consistent_def example_maps_def)
  have 1: "of_oxm_wire_object_id_set example_maps ?o0 (OF_OBJECT_OTHER 100) = Inr ?o1"
    by (simp add: oxm_eval_defs)
  have 2: "of_oxm_wire_length_set ?o1 17 = Inr ?o2"
    by (simp add: oxm_eval_defs)
  have "version ?o0 = 4" and "wbuf ?o0 = Some [0, 0, 0, 0]" and "obj_offset ?o0 = 0"
    by (simp_all add: example_object_def)
  then obtain obj1 obj2 where
    "of_oxm_wire_object_id_set example_maps ?o0 (OF_OBJECT_OTHER 100) = Inr obj1"
    "of_oxm_wire_length_set obj1 17 = Inr obj2"
    "of_oxm_wire_object_id_get example_maps obj2 = Inr (OF_OBJECT_OTHER 100)"
    "of_oxm_wire_length_get obj2 = Inr 17"
    using of_oxm_wire_fields_isolated [of ?o0 "[0, 0, 0, 0]" example_maps "OF_OBJECT_OTHER 100" 17] c
    by auto
  with 1 2 have "of_oxm_wire_object_id_get example_maps ?o2 = Inr (OF_OBJECT_OTHER 100)"
    and "of_oxm_wire_length_get ?o2 = Inr 17"
    by simp_all
  with c 1 2 show ?thesis by simp
qed

subsection \<open>The experimenter encode and decode paths of an action\<close>

lemma tlv16_type_get_bytes:
  assumes "wbuf obj = Some b" and "obj_offset obj + 2 \<le> length b"
    and "buf_u16_get b (obj_offset obj) = Inr w"
  shows "of_tlv16_wire_type_get obj = Inr (uint w)"
  using assms by (simp add: of_tlv16_wire_type_get_def obj_defs of_wire_buffer_u16_get_def)

lemma extension_action_object_id_get_frame:
  assumes "wbuf obj = Some b" and "buf_u16_set b (obj_offset obj) v = Inr b'"
  shows "extension_action_object_id_get (wbuf_update obj b') = extension_action_object_id_get obj"
proof -
  have "buf_u32_get b' (obj_offset obj + 4) = buf_u32_get b (obj_offset obj + 4)"
    using assms(2) by (rule buf_u32_get_frame_u16) simp
  moreover have "buf_u32_get b' (obj_offset obj + 8) = buf_u32_get b (obj_offset obj + 8)"
    using assms(2) by (rule buf_u32_get_frame_u16) simp
  moreover have "buf_u16_get b' (obj_offset obj + 8) = buf_u16_get b (obj_offset obj + 8)"
    using assms(2) by (rule buf_u16_get_frame_u16) simp
  ultimately show ?thesis
    using assms(1)
    by (simp add: extension_action_object_id_get_def obj_defs wbuf_update_sel
        cong: sum.case_cong if_cong)
qed

lemma vendor_ids_distinct: "OF_EXPERIMENTER_ID_BSN \<noteq> OF_EXPERIMENTER_ID_NICIRA"
  by (simp add: OF_EXPERIMENTER_ID_BSN_def OF_EXPERIMENTER_ID_NICIRA_def)

lemma extension_action_object_id_get_bsn:
  assumes "wbuf obj = Some b"
    and "buf_u32_get b (obj_offset obj + 4) = Inr OF_EXPERIMENTER_ID_BSN"
    and "buf_u32_get b (obj_offset obj + 8) = Inr sub"
  shows "extension_action_object_id_get obj =
           Inr (if sub = 1 then OF_ACTION_BSN_MIRROR
                else if sub = 2 then OF_ACTION_BSN_SET_TUNNEL_DST
                else OF_ACTION_EXPERIMENTER)"
  using assms by (simp add: extension_action_object_id_get_def obj_defs)

lemma extension_action_object_id_get_nicira:
  assumes "wbuf obj = Some b"
    and "buf_u32_get b (obj_offset obj + 4) = Inr OF_EXPERIMENTER_ID_NICIRA"
    and "buf_u16_get b (obj_offset obj + 8) = Inr sub"
  shows "extension_action_object_id_get obj =
           Inr (if sub = 18 then OF_ACTION_NICIRA_DEC_TTL else OF_ACTION_EXPERIMENTER)"
  using assms vendor_ids_distinct
  by (simp add: extension_action_object_id_get_def obj_defs)

text \<open>
  The encode path on a registered action identifier: the object comes back with the
  vendor identifier and the sub-type written, the type field as it was.
\<close>

lemma of_extension_object_id_set_bsn:
  assumes "wbuf obj = Some b" and "obj_offset obj + 12 \<le> length b"
    and "oid = OF_ACTION_BSN_MIRROR \<and> sub = 1 \<or> oid = OF_ACTION_BSN_SET_TUNNEL_DST \<and> sub = 2"
  shows "\<exists>b2. of_extension_object_id_set obj oid = Inr (wbuf_update obj b2) \<and>
           buf_u32_get b2 (obj_offset obj + 4) = Inr OF_EXPERIMENTER_ID_BSN \<and>
           buf_u32_get b2 (obj_offset obj + 8) = Inr sub \<and>
           length b2 = length b \<and>
           buf_u16_get b2 (obj_offset obj) = buf_u16_get b (obj_offset obj)"
proof -
  obtain b1 where b1: "buf_u32_set b (obj_offset obj + 4) OF_EXPERIMENTER_ID_BSN = Inr b1"
    using buf_u32_set_ok [of "obj_offset obj + 4" b] assms(2) by auto
  have l1: "length b1 = length b"
    using b1 by (rule buf_u32_set_length)
  obtain b2 where b2: "buf_u32_set b1 (obj_offset obj + 8) sub = Inr b2"
    using buf_u32_set_ok [of "obj_offset obj + 8" b1 sub] assms(2) l1 by auto
  have s: "of_extension_object_id_set obj oid = Inr (wbuf_update obj b2)"
  proof (cases "oid = OF_ACTION_BSN_MIRROR")
    case True
    with assms(3) have "sub = 1" by simp
    with True assms(1) b1 b2 show ?thesis
      by (simp add: of_extension_object_id_set_def obj_defs)
  next
    case False
    with assms(3) have "oid = OF_ACTION_BSN_SET_TUNNEL_DST" and "sub = 2" by simp_all
    with assms(1) b1 b2 show ?thesis
      by (simp add: of_extension_object_id_set_def obj_defs)
  qed
  have w: "buf_u32_get b2 (obj_offset obj + 4) = Inr OF_EXPERIMENTER_ID_BSN"
    "buf_u32_get b2 (obj_offset obj + 8) = Inr sub" "length b2 = length b"
    "\<forall>k. k < obj_offset obj + 4 \<or> obj_offset obj + 12 \<le> k \<longrightarrow> b2 ! k = b ! k"
    using vendor_subtype_u32_written [OF assms(2) b1 b2] by blast+
  have "b2 ! obj_offset obj = b ! obj_offset obj"
    using w(4) [rule_format, of "obj_offset obj"] by simp
  moreover have "b2 ! (obj_offset obj + 1) = b ! (obj_offset obj + 1)"
    using w(4) [rule_format, of "obj_offset obj + 1"] by simp
  ultimately have "buf_u16_get b2 (obj_offset obj) = buf_u16_get b (obj_offset obj)"
    using w(3) by (intro buf_u16_get_cong)
  with s w show ?thesis by blast
qed

lemma of_extension_object_id_set_nicira:
  assumes "wbuf obj = Some b" and "obj_offset obj + 10 \<le> length b"
  shows "\<exists>b2. of_extension_object_id_set obj OF_ACTION_NICIRA_DEC_TTL = Inr (wbuf_update obj b2) \<and>
           buf_u32_get b2 (obj_offset obj + 4) = Inr OF_EXPERIMENTER_ID_NICIRA \<and>
           buf_u16_get b2 (obj_offset obj + 8) = Inr 18 \<and>
           length b2 = length b \<and>
           buf_u16_get b2 (obj_offset obj) = buf_u16_get b (obj_offset obj)"
proof -
  obtain b1 where b1: "buf_u32_set b (obj_offset obj + 4) OF_EXPERIMENTER_ID_NICIRA = Inr b1"
    using buf_u32_set_ok [of "obj_offset obj + 4" b] assms(2) by auto
  have l1: "length b1 = length b"
    using b1 by (rule buf_u32_set_length)
  obtain b2 where b2: "buf_u16_set b1 (obj_offset obj + 8) 18 = Inr b2"
    using buf_u16_set_ok [of "obj_offset obj + 8" b1 18] assms(2) l1 by auto
  have s: "of_extension_object_id_set obj OF_ACTION_NICIRA_DEC_TTL = Inr (wbuf_update obj b2)"
    using assms(1) b1 b2 by (simp add: of_extension_object_id_set_def obj_defs)
  have w: "buf_u32_get b2 (obj_offset obj + 4) = Inr OF_EXPERIMENTER_ID_NICIRA"
    "buf_u16_get b2 (obj_offset obj + 8) = Inr 18" "length b2 = length b"
    "\<forall>k. k < obj_offset obj + 4 \<or> obj_offset obj + 10 \<le> k \<longrightarrow> b2 ! k = b ! k"
    using vendor_subtype_u16_written [OF assms(2) b1 b2] by blast+
  have "b2 ! obj_offset obj = b ! obj_offset obj"
    using w(4) [rule_format, of "obj_offset obj"] by simp
  moreover have "b2 ! (obj_offset obj + 1) = b ! (obj_offset obj + 1)"
    using w(4) [rule_format, of "obj_offset obj + 1"] by simp
  ultimately have "buf_u16_get b2 (obj_offset obj) = buf_u16_get b (obj_offset obj)"
    using w(3) by (intro buf_u16_get_cong)
  with s w show ?thesis by blast
qed

lemma tlv16_set_type_written:
  assumes "wbuf obj = Some b" and "obj_offset obj + 2 \<le> length b"
    and "wire_type = of_object_to_type_map T (version obj) oid"
    and "0 \<le> wire_type" and "wire_type < 65536"
  shows "\<exists>b'. buf_u16_set b (obj_offset obj) (word_of_int wire_type) = Inr b' \<and>
           length b' = length b \<and>
           buf_u16_get b' (obj_offset obj) = Inr (word_of_int wire_type) \<and>
           of_tlv16_wire_type_get (wbuf_update obj b') = Inr wire_type \<and>
           of_tlv16_wire_object_id_set T obj oid =
             (if wire_type = OF_EXPERIMENTER_TYPE
              then of_extension_object_id_set (wbuf_update obj b') oid
              else Inr (wbuf_update obj b'))"
proof -
  obtain b' where b': "buf_u16_set b (obj_offset obj) (word_of_int wire_type) = Inr b'"
    using buf_u16_set_ok [OF assms(2)] by blast
  have l: "length b' = length b"
    using b' by (rule buf_u16_set_length)
  have r: "buf_u16_get b' (obj_offset obj) = Inr (word_of_int wire_type)"
    using b' by (rule buf_u16_get_set)
  have "of_tlv16_wire_type_get (wbuf_update obj b') = Inr (uint (word_of_int wire_type :: u16))"
    using assms(2) l r
    by (intro tlv16_type_get_bytes [where b = b']) (simp_all add: wbuf_update_sel)
  then have t: "of_tlv16_wire_type_get (wbuf_update obj b') = Inr wire_type"
    using assms(4,5) by (simp add: uint_u16_of_int)
  have "of_tlv16_wire_object_id_set T obj oid =
             (if wire_type = OF_EXPERIMENTER_TYPE
              then of_extension_object_id_set (wbuf_update obj b') oid
              else Inr (wbuf_update obj b'))"
    using assms(1,2,4) b'
    by (simp add: of_tlv16_wire_object_id_set_def obj_defs of_wire_buffer_u16_set_def
        flip: assms(3))
  with b' l r t show ?thesis by blast
qed

lemmas tlv16_eval_defs = of_tlv16_wire_object_id_set_def of_extension_object_id_set_def
  of_action_wire_object_id_get_def extension_action_object_id_get_def of_tlv16_wire_type_get_def
  obj_defs of_wire_buffer_u16_get_def of_wire_buffer_u16_set_def buf_u16_get_def buf_u16_set_def
  buf_u32_get_def buf_u32_set_def example_object_def example_maps_def example_to_type_map_def
  example_mirror_bytes_def wbuf_update_def OF_EXPERIMENTER_TYPE_def OF_EXPERIMENTER_ID_BSN_def
  OF_EXPERIMENTER_ID_NICIRA_def

text \<open>The bytes that the encode path writes for a registered identifier.\<close>

lemma bsn_id_bytes:
  "ucast (drop_bit 24 OF_EXPERIMENTER_ID_BSN) = (0x00 :: u8)"
  "ucast (drop_bit 16 OF_EXPERIMENTER_ID_BSN) = (0x5c :: u8)"
  "ucast (drop_bit 8 OF_EXPERIMENTER_ID_BSN) = (0x16 :: u8)"
  "ucast OF_EXPERIMENTER_ID_BSN = (0xc7 :: u8)"
  by (simp_all add: OF_EXPERIMENTER_ID_BSN_def)

lemma nicira_id_bytes:
  "ucast (drop_bit 24 OF_EXPERIMENTER_ID_NICIRA) = (0x00 :: u8)"
  "ucast (drop_bit 16 OF_EXPERIMENTER_ID_NICIRA) = (0x00 :: u8)"
  "ucast (drop_bit 8 OF_EXPERIMENTER_ID_NICIRA) = (0x23 :: u8)"
  "ucast OF_EXPERIMENTER_ID_NICIRA = (0x20 :: u8)"
  by (simp_all add: OF_EXPERIMENTER_ID_NICIRA_def)

lemma subtype_bytes:
  "ucast (drop_bit 24 (1 :: u32)) = (0x00 :: u8)" "ucast (drop_bit 16 (1 :: u32)) = (0x00 :: u8)"
  "ucast (drop_bit 8 (1 :: u32)) = (0x00 :: u8)" "ucast (1 :: u32) = (0x01 :: u8)"
  "ucast (drop_bit 24 (2 :: u32)) = (0x00 :: u8)" "ucast (drop_bit 16 (2 :: u32)) = (0x00 :: u8)"
  "ucast (drop_bit 8 (2 :: u32)) = (0x00 :: u8)" "ucast (2 :: u32) = (0x02 :: u8)"
  "ucast (drop_bit 8 (18 :: u16)) = (0x00 :: u8)" "ucast (18 :: u16) = (0x12 :: u8)"
  by simp_all

lemma buf_u32_set_bytes:
  assumes "i + 4 \<le> length c"
  shows "buf_u32_set c i v =
           Inr (c[i := ucast (drop_bit 24 v), i + 1 := ucast (drop_bit 16 v),
                  i + 2 := ucast (drop_bit 8 v), i + 3 := ucast v])"
  using assms by (simp add: buf_u32_set_def)

lemma buf_u16_set_bytes:
  assumes "i + 2 \<le> length c"
  shows "buf_u16_set c i v = Inr (c[i := ucast (drop_bit 8 v), i + 1 := ucast v])"
  using assms by (simp add: buf_u16_set_def)

lemma field_offsets:
  "(i :: nat) + 4 + 1 = i + 5" "i + 4 + 2 = i + 6" "i + 4 + 3 = i + 7"
  "i + 8 + 1 = i + 9" "i + 8 + 2 = i + 10" "i + 8 + 3 = i + 11"
  by simp_all

lemma of_extension_object_id_set_unfold:
  assumes "wbuf obj = Some c"
  shows "of_extension_object_id_set obj oid =
     (if oid = OF_ACTION_BSN_MIRROR \<or> oid = OF_ACTION_ID_BSN_MIRROR then
        (case buf_u32_set c (obj_offset obj + 4) OF_EXPERIMENTER_ID_BSN of
           Inl e \<Rightarrow> Inl e
         | Inr b1 \<Rightarrow>
             (case buf_u32_set b1 (obj_offset obj + 8) 1 of
                Inl e \<Rightarrow> Inl e | Inr b2 \<Rightarrow> Inr (wbuf_update obj b2)))
      else if oid = OF_ACTION_BSN_SET_TUNNEL_DST \<or> oid = OF_ACTION_ID_BSN_SET_TUNNEL_DST then
        (case buf_u32_set c (obj_offset obj + 4) OF_EXPERIMENTER_ID_BSN of
           Inl e \<Rightarrow> Inl e
         | Inr b1 \<Rightarrow>
             (case buf_u32_set b1 (obj_offset obj + 8) 2 of
                Inl e \<Rightarrow> Inl e | Inr b2 \<Rightarrow> Inr (wbuf_update obj b2)))
      else if oid = OF_ACTION_NICIRA_DEC_TTL \<or> oid = OF_ACTION_ID_NICIRA_DEC_TTL then
        (case buf_u32_set c (obj_offset obj + 4) OF_EXPERIMENTER_ID_NICIRA of
           Inl e \<Rightarrow> Inl e
         | Inr b1 \<Rightarrow>
             (case buf_u16_set b1 (obj_offset obj + 8) 18 of
                Inl e \<Rightarrow> Inl e | Inr b2 \<Rightarrow> Inr (wbuf_update obj b2)))
      else Inr obj)"
  using assms
  by (simp add: of_extension_object_id_set_def obj_defs cong: sum.case_cong if_cong)

lemma of_extension_object_id_set_bytes_bsn:
  assumes "wbuf obj = Some c" and "obj_offset obj + 12 \<le> length c" and "off = obj_offset obj"
    and "(oid = OF_ACTION_BSN_MIRROR \<or> oid = OF_ACTION_ID_BSN_MIRROR) \<and> sub = 1 \<or>
         (oid = OF_ACTION_BSN_SET_TUNNEL_DST \<or> oid = OF_ACTION_ID_BSN_SET_TUNNEL_DST) \<and> sub = 2"
  shows "of_extension_object_id_set obj oid =
           Inr (wbuf_update obj
                 (c[off + 4 := 0x00, off + 5 := 0x5c, off + 6 := 0x16, off + 7 := 0xc7,
                    off + 8 := 0x00, off + 9 := 0x00, off + 10 := 0x00, off + 11 := sub]))"
proof -
  let ?c1 = "c[off + 4 := 0x00, off + 5 := 0x5c, off + 6 := 0x16, off + 7 := 0xc7]"
  have "off + 4 + 4 \<le> length c"
    using assms(2,3) by simp
  then have v: "buf_u32_set c (off + 4) OF_EXPERIMENTER_ID_BSN = Inr ?c1"
    by (simp only: buf_u32_set_bytes bsn_id_bytes field_offsets)
  have l: "off + 8 + 4 \<le> length ?c1"
    using assms(2,3) by simp
  have s1: "buf_u32_set ?c1 (off + 8) 1 =
              Inr (?c1[off + 8 := 0x00, off + 9 := 0x00, off + 10 := 0x00, off + 11 := 1])"
    by (simp only: buf_u32_set_bytes [OF l] subtype_bytes field_offsets)
  have s2: "buf_u32_set ?c1 (off + 8) 2 =
              Inr (?c1[off + 8 := 0x00, off + 9 := 0x00, off + 10 := 0x00, off + 11 := 2])"
    by (simp only: buf_u32_set_bytes [OF l] subtype_bytes field_offsets)
  from assms(4) consider
      (mirror) "oid = OF_ACTION_BSN_MIRROR \<or> oid = OF_ACTION_ID_BSN_MIRROR" "sub = 1"
    | (tunnel) "oid = OF_ACTION_BSN_SET_TUNNEL_DST \<or> oid = OF_ACTION_ID_BSN_SET_TUNNEL_DST" "sub = 2"
    by blast
  then show ?thesis
  proof cases
    case mirror
    then show ?thesis
      unfolding of_extension_object_id_set_unfold [OF assms(1)] assms(3) [symmetric]
      by (auto simp: v s1)
  next
    case tunnel
    then show ?thesis
      unfolding of_extension_object_id_set_unfold [OF assms(1)] assms(3) [symmetric]
      by (auto simp: v s2)
  qed
qed

lemma of_extension_object_id_set_bytes_nicira:
  assumes "wbuf obj = Some c" and "obj_offset obj + 10 \<le> length c" and "off = obj_offset obj"
    and "oid = OF_ACTION_NICIRA_DEC_TTL \<or> oid = OF_ACTION_ID_NICIRA_DEC_TTL"
  shows "of_extension_object_id_set obj oid =
           Inr (wbuf_update obj
                 (c[off + 4 := 0x00, off + 5 := 0x00, off + 6 := 0x23, off + 7 := 0x20,
                    off + 8 := 0x00, off + 9 := 0x12]))"
proof -
  let ?c1 = "c[off + 4 := 0x00, off + 5 := 0x00, off + 6 := 0x23, off + 7 := 0x20]"
  have "off + 4 + 4 \<le> length c"
    using assms(2,3) by simp
  then have v: "buf_u32_set c (off + 4) OF_EXPERIMENTER_ID_NICIRA = Inr ?c1"
    by (simp only: buf_u32_set_bytes nicira_id_bytes field_offsets)
  have l: "off + 8 + 2 \<le> length ?c1"
    using assms(2,3) by simp
  have s: "buf_u16_set ?c1 (off + 8) 18 = Inr (?c1[off + 8 := 0x00, off + 9 := 0x12])"
    by (simp only: buf_u16_set_bytes [OF l] subtype_bytes field_offsets)
  show ?thesis
    using assms(4)
    unfolding of_extension_object_id_set_unfold [OF assms(1)] assms(3) [symmetric]
    by (auto simp: v s)
qed

lemma experimenter_type_bytes:
  "ucast (drop_bit 8 (word_of_int OF_EXPERIMENTER_TYPE :: u16)) = (0xff :: u8)"
  "ucast (word_of_int OF_EXPERIMENTER_TYPE :: u16) = (0xff :: u8)"
  by (simp_all add: OF_EXPERIMENTER_TYPE_def)

subsection \<open>Setting the identifier of a TLV16 object\<close>

text \<open>
  Claim C3. For an object with an attached buffer that holds the object's type field,
  \<^verbatim>\<open>of_tlv16_wire_object_id_set\<close> looks the wire type code of (version, identifier) up
  in the forward table; a negative result is a failed assertion. Otherwise it writes
  the code as a big-endian 16-bit value at byte offset 0 of the object, and it goes on
  to \<^verbatim>\<open>of_extension_object_id_set\<close> exactly when the code is the experimenter code.
  On that path, on a buffer that holds the fields, a registered identifier has its
  vendor identifier written at offset 4 and its sub-type at offset 8: the bytes
  00 5c 16 c7 and the 32-bit sub-type 1 (mirror) or 2 (set-tunnel-dst) for BSN, the
  bytes 00 00 23 20 and the 16-bit sub-type 18 (decrement-TTL) for Nicira. For every
  other identifier on that path, and for every identifier whose code is not the
  experimenter code, nothing but the type field is written.
\<close>

theorem of_tlv16_wire_object_id_set_writes:
  assumes "wbuf obj = Some b"
    and "off = obj_offset obj"
    and "off + 2 \<le> length b"
    and "wire_type = of_object_to_type_map T (version obj) oid"
    and "b' = b[off := ucast (drop_bit 8 (word_of_int wire_type :: u16)),
                off + 1 := ucast (word_of_int wire_type :: u16)]"
  shows "of_tlv16_wire_object_id_set T obj oid =
           (if wire_type < 0 then Inl ASSERT_FAILURE
            else if wire_type = OF_EXPERIMENTER_TYPE
            then of_extension_object_id_set (wbuf_update obj b') oid
            else Inr (wbuf_update obj b')) \<and>
         buf_u16_get b' off = Inr (word_of_int wire_type) \<and>
         (wire_type = OF_EXPERIMENTER_TYPE \<longrightarrow> b' = b[off := 0xff, off + 1 := 0xff]) \<and>
         (wire_type = OF_EXPERIMENTER_TYPE \<and> off + 12 \<le> length b \<and>
          (oid = OF_ACTION_BSN_MIRROR \<or> oid = OF_ACTION_ID_BSN_MIRROR) \<longrightarrow>
            of_tlv16_wire_object_id_set T obj oid =
              Inr (wbuf_update obj
                    (b'[off + 4 := 0x00, off + 5 := 0x5c, off + 6 := 0x16, off + 7 := 0xc7,
                        off + 8 := 0x00, off + 9 := 0x00, off + 10 := 0x00, off + 11 := 0x01]))) \<and>
         (wire_type = OF_EXPERIMENTER_TYPE \<and> off + 12 \<le> length b \<and>
          (oid = OF_ACTION_BSN_SET_TUNNEL_DST \<or> oid = OF_ACTION_ID_BSN_SET_TUNNEL_DST) \<longrightarrow>
            of_tlv16_wire_object_id_set T obj oid =
              Inr (wbuf_update obj
                    (b'[off + 4 := 0x00, off + 5 := 0x5c, off + 6 := 0x16, off + 7 := 0xc7,
                        off + 8 := 0x00, off + 9 := 0x00, off + 10 := 0x00, off + 11 := 0x02]))) \<and>
         (wire_type = OF_EXPERIMENTER_TYPE \<and> off + 10 \<le> length b \<and>
          (oid = OF_ACTION_NICIRA_DEC_TTL \<or> oid = OF_ACTION_ID_NICIRA_DEC_TTL) \<longrightarrow>
            of_tlv16_wire_object_id_set T obj oid =
              Inr (wbuf_update obj
                    (b'[off + 4 := 0x00, off + 5 := 0x00, off + 6 := 0x23, off + 7 := 0x20,
                        off + 8 := 0x00, off + 9 := 0x12]))) \<and>
         (wire_type = OF_EXPERIMENTER_TYPE \<and>
          oid \<notin> {OF_ACTION_BSN_MIRROR, OF_ACTION_ID_BSN_MIRROR, OF_ACTION_BSN_SET_TUNNEL_DST,
                  OF_ACTION_ID_BSN_SET_TUNNEL_DST, OF_ACTION_NICIRA_DEC_TTL,
                  OF_ACTION_ID_NICIRA_DEC_TTL} \<longrightarrow>
            of_tlv16_wire_object_id_set T obj oid = Inr (wbuf_update obj b'))"
proof (intro conjI impI)
  let ?o1 = "wbuf_update obj b'"
  have w1: "wbuf ?o1 = Some b'" and off1: "off = obj_offset ?o1" and l1: "length b' = length b"
    using assms(2,5) by (simp_all add: wbuf_update_sel)
  show eq: "of_tlv16_wire_object_id_set T obj oid =
           (if wire_type < 0 then Inl ASSERT_FAILURE
            else if wire_type = OF_EXPERIMENTER_TYPE
            then of_extension_object_id_set (wbuf_update obj b') oid
            else Inr (wbuf_update obj b'))"
    using assms
    by (auto simp: of_tlv16_wire_object_id_set_def obj_defs of_wire_buffer_u16_set_def
        buf_u16_set_def Let_def)
  show "buf_u16_get b' off = Inr (word_of_int wire_type)"
    using assms(3,5) by (simp add: buf_u16_get_def u16_bytes)
  show "b' = b[off := 0xff, off + 1 := 0xff]" if "wire_type = OF_EXPERIMENTER_TYPE"
    unfolding assms(5) that by (simp only: experimenter_type_bytes)
  have ext: "of_tlv16_wire_object_id_set T obj oid = of_extension_object_id_set ?o1 oid"
    if "wire_type = OF_EXPERIMENTER_TYPE"
    using eq that by (simp add: OF_EXPERIMENTER_TYPE_def)
  show "of_tlv16_wire_object_id_set T obj oid =
          Inr (wbuf_update obj
                (b'[off + 4 := 0x00, off + 5 := 0x5c, off + 6 := 0x16, off + 7 := 0xc7,
                    off + 8 := 0x00, off + 9 := 0x00, off + 10 := 0x00, off + 11 := 0x01]))"
    if "wire_type = OF_EXPERIMENTER_TYPE \<and> off + 12 \<le> length b \<and>
        (oid = OF_ACTION_BSN_MIRROR \<or> oid = OF_ACTION_ID_BSN_MIRROR)"
  proof -
    have "obj_offset ?o1 + 12 \<le> length b'"
      using that l1 off1 by simp
    then show ?thesis
      using that of_extension_object_id_set_bytes_bsn [OF w1 _ off1, of oid 1]
      by (simp add: ext wbuf_update_twice)
  qed
  show "of_tlv16_wire_object_id_set T obj oid =
          Inr (wbuf_update obj
                (b'[off + 4 := 0x00, off + 5 := 0x5c, off + 6 := 0x16, off + 7 := 0xc7,
                    off + 8 := 0x00, off + 9 := 0x00, off + 10 := 0x00, off + 11 := 0x02]))"
    if "wire_type = OF_EXPERIMENTER_TYPE \<and> off + 12 \<le> length b \<and>
        (oid = OF_ACTION_BSN_SET_TUNNEL_DST \<or> oid = OF_ACTION_ID_BSN_SET_TUNNEL_DST)"
  proof -
    have "obj_offset ?o1 + 12 \<le> length b'"
      using that l1 off1 by simp
    then show ?thesis
      using that of_extension_object_id_set_bytes_bsn [OF w1 _ off1, of oid 2]
      by (simp add: ext wbuf_update_twice)
  qed
  show "of_tlv16_wire_object_id_set T obj oid =
          Inr (wbuf_update obj
                (b'[off + 4 := 0x00, off + 5 := 0x00, off + 6 := 0x23, off + 7 := 0x20,
                    off + 8 := 0x00, off + 9 := 0x12]))"
    if "wire_type = OF_EXPERIMENTER_TYPE \<and> off + 10 \<le> length b \<and>
        (oid = OF_ACTION_NICIRA_DEC_TTL \<or> oid = OF_ACTION_ID_NICIRA_DEC_TTL)"
  proof -
    have "obj_offset ?o1 + 10 \<le> length b'"
      using that l1 off1 by simp
    then show ?thesis
      using that of_extension_object_id_set_bytes_nicira [OF w1 _ off1, of oid]
      by (simp add: ext wbuf_update_twice)
  qed
  show "of_tlv16_wire_object_id_set T obj oid = Inr (wbuf_update obj b')"
    if "wire_type = OF_EXPERIMENTER_TYPE \<and>
        oid \<notin> {OF_ACTION_BSN_MIRROR, OF_ACTION_ID_BSN_MIRROR, OF_ACTION_BSN_SET_TUNNEL_DST,
                OF_ACTION_ID_BSN_SET_TUNNEL_DST, OF_ACTION_NICIRA_DEC_TTL,
                OF_ACTION_ID_NICIRA_DEC_TTL}"
    using that by (simp add: ext of_extension_object_id_set_unfold [OF w1])
qed

theorem of_tlv16_wire_object_id_set_writes_witness:
  "of_tlv16_wire_object_id_set example_maps
     (example_object [0, 0, 0, 16, 0, 0, 0, 0, 0, 0, 0, 0, 0, 0, 0, 0] 4 OF_ACTION_BSN_MIRROR)
     OF_ACTION_BSN_MIRROR
     = Inr (example_object
             [0xff, 0xff, 0, 16, 0x00, 0x5c, 0x16, 0xc7, 0, 0, 0, 1, 0, 0, 0, 0] 4
             OF_ACTION_BSN_MIRROR) \<and>
   of_tlv16_wire_object_id_set example_maps
     (example_object [0, 0, 0, 16, 9, 9, 9, 9, 9, 9] 4 OF_ACTION_NICIRA_DEC_TTL)
     OF_ACTION_NICIRA_DEC_TTL
     = Inr (example_object [0xff, 0xff, 0, 16, 0x00, 0x00, 0x23, 0x20, 0x00, 0x12] 4
             OF_ACTION_NICIRA_DEC_TTL) \<and>
   of_tlv16_wire_object_id_set example_maps
     (example_object [0, 0, 0, 16, 9, 9, 9, 9, 9, 9] 4 OF_ACTION_EXPERIMENTER)
     OF_ACTION_EXPERIMENTER
     = Inr (example_object [0xff, 0xff, 0, 16, 9, 9, 9, 9, 9, 9] 4 OF_ACTION_EXPERIMENTER) \<and>
   of_tlv16_wire_object_id_set example_maps
     (example_object [0, 0, 0, 16, 9, 9, 9, 9, 9, 9] 4 (OF_OBJECT_OTHER 1)) (OF_OBJECT_OTHER 1)
     = Inr (example_object [0, 1, 0, 16, 9, 9, 9, 9, 9, 9] 4 (OF_OBJECT_OTHER 1)) \<and>
   of_tlv16_wire_object_id_set example_maps
     (example_object [0, 0, 0, 16, 9, 9, 9, 9, 9, 9] 4 (OF_OBJECT_OTHER 1)) OF_METER_STATS
     = Inl ASSERT_FAILURE"
proof -
  let ?z = "[0, 0, 0, 16, 0, 0, 0, 0, 0, 0, 0, 0, 0, 0, 0, 0] :: of_wire_buffer_t"
  let ?n = "[0, 0, 0, 16, 9, 9, 9, 9, 9, 9] :: of_wire_buffer_t"
  note defs = example_object_def example_maps_def example_to_type_map_def
    OF_EXPERIMENTER_TYPE_def wbuf_update_def
  have tz: "[0xff, 0xff, 0, 16, 0, 0, 0, 0, 0, 0, 0, 0, 0, 0, 0, 0] =
            ?z[0 := ucast (drop_bit 8 (word_of_int 65535 :: u16)),
               0 + 1 := ucast (word_of_int 65535 :: u16)]"
    by simp
  have tn: "[0xff, 0xff, 0, 16, 9, 9, 9, 9, 9, 9] =
            ?n[0 := ucast (drop_bit 8 (word_of_int 65535 :: u16)),
               0 + 1 := ucast (word_of_int 65535 :: u16)]"
    by simp
  have t1: "[0, 1, 0, 16, 9, 9, 9, 9, 9, 9] =
            ?n[0 := ucast (drop_bit 8 (word_of_int 1 :: u16)),
               0 + 1 := ucast (word_of_int 1 :: u16)]"
    by simp
  have 1: "of_tlv16_wire_object_id_set example_maps
             (example_object ?z 4 OF_ACTION_BSN_MIRROR) OF_ACTION_BSN_MIRROR
           = Inr (example_object
                   [0xff, 0xff, 0, 16, 0x00, 0x5c, 0x16, 0xc7, 0, 0, 0, 1, 0, 0, 0, 0] 4
                   OF_ACTION_BSN_MIRROR)"
    using of_tlv16_wire_object_id_set_writes
      [of "example_object ?z 4 OF_ACTION_BSN_MIRROR" ?z 0 65535 example_maps
          OF_ACTION_BSN_MIRROR, OF _ _ _ _ tz,
       THEN conjunct2, THEN conjunct2, THEN conjunct2, THEN conjunct1]
    by (simp add: defs)
  have 2: "of_tlv16_wire_object_id_set example_maps
             (example_object ?n 4 OF_ACTION_NICIRA_DEC_TTL) OF_ACTION_NICIRA_DEC_TTL
           = Inr (example_object [0xff, 0xff, 0, 16, 0x00, 0x00, 0x23, 0x20, 0x00, 0x12] 4
                   OF_ACTION_NICIRA_DEC_TTL)"
    using of_tlv16_wire_object_id_set_writes
      [of "example_object ?n 4 OF_ACTION_NICIRA_DEC_TTL" ?n 0 65535 example_maps
          OF_ACTION_NICIRA_DEC_TTL, OF _ _ _ _ tn,
       THEN conjunct2, THEN conjunct2, THEN conjunct2, THEN conjunct2, THEN conjunct2, THEN conjunct1]
    by (simp add: defs)
  have 3: "of_tlv16_wire_object_id_set example_maps
             (example_object ?n 4 OF_ACTION_EXPERIMENTER) OF_ACTION_EXPERIMENTER
           = Inr (example_object [0xff, 0xff, 0, 16, 9, 9, 9, 9, 9, 9] 4 OF_ACTION_EXPERIMENTER)"
    using of_tlv16_wire_object_id_set_writes
      [of "example_object ?n 4 OF_ACTION_EXPERIMENTER" ?n 0 65535 example_maps
          OF_ACTION_EXPERIMENTER, OF _ _ _ _ tn,
       THEN conjunct2, THEN conjunct2, THEN conjunct2, THEN conjunct2, THEN conjunct2, THEN conjunct2]
    by (simp add: defs)
  have 4: "of_tlv16_wire_object_id_set example_maps
             (example_object ?n 4 (OF_OBJECT_OTHER 1)) (OF_OBJECT_OTHER 1)
           = Inr (example_object [0, 1, 0, 16, 9, 9, 9, 9, 9, 9] 4 (OF_OBJECT_OTHER 1))"
    using of_tlv16_wire_object_id_set_writes
      [of "example_object ?n 4 (OF_OBJECT_OTHER 1)" ?n 0 1 example_maps "OF_OBJECT_OTHER 1",
       OF _ _ _ _ t1, THEN conjunct1]
    by (simp add: defs)
  have 5: "of_tlv16_wire_object_id_set example_maps
             (example_object ?n 4 (OF_OBJECT_OTHER 1)) OF_METER_STATS = Inl ASSERT_FAILURE"
    using of_tlv16_wire_object_id_set_writes
      [of "example_object ?n 4 (OF_OBJECT_OTHER 1)" ?n 0 "- 1" example_maps OF_METER_STATS,
       OF _ _ _ _ refl, THEN conjunct1]
    by (simp add: defs)
  from 1 2 3 4 5 show ?thesis by simp
qed

subsection \<open>The round trip of an action identifier\<close>

text \<open>
  Claim C2, as the spec states it: for every version and every identifier with a wire
  type code in the tables of the action family, \<^verbatim>\<open>of_tlv16_wire_object_id_set\<close>
  followed by \<^verbatim>\<open>of_action_wire_object_id_get\<close> returns the identifier. This fails
  for the generic experimenter action identifier on a buffer whose vendor identifier
  and sub-type are those of a BSN mirror action: the setter writes the experimenter
  code and, the identifier having no registered entry, leaves vendor and sub-type as
  they are; the getter then decodes them to the BSN mirror identifier.
\<close>

theorem tlv16_set_action_get_roundtrip_counterexample:
  "action_map_consistent example_maps 4 OF_ACTION_EXPERIMENTER \<and>
   of_tlv16_wire_object_id_set example_maps
     (example_object example_mirror_bytes 4 OF_ACTION_EXPERIMENTER) OF_ACTION_EXPERIMENTER
     = Inr (example_object example_mirror_bytes 4 OF_ACTION_EXPERIMENTER) \<and>
   of_action_wire_object_id_get example_maps
     (example_object example_mirror_bytes 4 OF_ACTION_EXPERIMENTER) = Inr OF_ACTION_BSN_MIRROR \<and>
   of_action_wire_object_id_get example_maps
     (example_object example_mirror_bytes 4 OF_ACTION_EXPERIMENTER) \<noteq> Inr OF_ACTION_EXPERIMENTER"
proof -
  have 1: "action_map_consistent example_maps 4 OF_ACTION_EXPERIMENTER"
    by (simp add: action_map_consistent_def example_maps_def example_to_type_map_def
        OF_EXPERIMENTER_TYPE_def)
  have 2: "of_tlv16_wire_object_id_set example_maps
     (example_object example_mirror_bytes 4 OF_ACTION_EXPERIMENTER) OF_ACTION_EXPERIMENTER
     = Inr (example_object example_mirror_bytes 4 OF_ACTION_EXPERIMENTER)"
    by (simp add: tlv16_eval_defs)
  have 3: "of_action_wire_object_id_get example_maps
     (example_object example_mirror_bytes 4 OF_ACTION_EXPERIMENTER) = Inr OF_ACTION_BSN_MIRROR"
    by (simp add: tlv16_eval_defs)
  from 1 2 3 show ?thesis by simp
qed

text \<open>
  Claim C2, amended. On an object whose buffer holds the fields written, under the
  table invariant of the action family, \<^verbatim>\<open>of_tlv16_wire_object_id_set\<close> followed by
  \<^verbatim>\<open>of_action_wire_object_id_get\<close> returns the identifier when its wire type code is
  not the experimenter code, and when it is one of the three registered vendor
  extensions of the action family, which go through the experimenter encode and decode
  paths: BSN mirror and BSN set-tunnel-dst on an object of at least 12 bytes, Nicira
  decrement-TTL on an object of at least 10 bytes. For the generic experimenter action
  identifier the round trip returns the identifier exactly when the vendor identifier
  and sub-type already in the buffer decode to the generic identifier: if they do it
  returns it, and if they do not (they decode to a registered entry, or cannot be
  read) it does not.
\<close>

theorem tlv16_set_action_get_roundtrip:
  assumes w: "wbuf obj = Some b" and len: "obj_offset obj + 2 \<le> length b"
    and inv: "action_map_consistent T (version obj) oid"
    and wt_def: "wire_type = of_object_to_type_map T (version obj) oid"
  shows
    "(wire_type \<noteq> OF_EXPERIMENTER_TYPE \<longrightarrow>
        (\<exists>obj'. of_tlv16_wire_object_id_set T obj oid = Inr obj' \<and>
                of_action_wire_object_id_get T obj' = Inr oid)) \<and>
     (wire_type = OF_EXPERIMENTER_TYPE \<and> obj_offset obj + 12 \<le> length b \<and>
      (oid = OF_ACTION_BSN_MIRROR \<or> oid = OF_ACTION_BSN_SET_TUNNEL_DST) \<longrightarrow>
        (\<exists>obj'. of_tlv16_wire_object_id_set T obj oid = Inr obj' \<and>
                of_action_wire_object_id_get T obj' = Inr oid)) \<and>
     (wire_type = OF_EXPERIMENTER_TYPE \<and> obj_offset obj + 10 \<le> length b \<and>
      oid = OF_ACTION_NICIRA_DEC_TTL \<longrightarrow>
        (\<exists>obj'. of_tlv16_wire_object_id_set T obj oid = Inr obj' \<and>
                of_action_wire_object_id_get T obj' = Inr oid)) \<and>
     (wire_type = OF_EXPERIMENTER_TYPE \<and> oid = OF_ACTION_EXPERIMENTER \<longrightarrow>
        ((\<exists>obj'. of_tlv16_wire_object_id_set T obj oid = Inr obj' \<and>
                 of_action_wire_object_id_get T obj' = Inr oid) \<longleftrightarrow>
         extension_action_object_id_get obj = Inr OF_ACTION_EXPERIMENTER))"
proof -
  have wt: "0 \<le> wire_type" "wire_type < 65536" and valid: "oid \<noteq> OF_OBJECT_INVALID"
    and tab: "wire_type = OF_EXPERIMENTER_TYPE \<or>
              (wire_type < OF_ACTION_ITEM_COUNT T \<and>
               of_action_type_to_id T (version obj) wire_type = oid)"
    using inv by (simp_all add: action_map_consistent_def Let_def wt_def)
  obtain b' where b': "buf_u16_set b (obj_offset obj) (word_of_int wire_type) = Inr b'"
    and l: "length b' = length b"
    and r: "buf_u16_get b' (obj_offset obj) = Inr (word_of_int wire_type)"
    and t: "of_tlv16_wire_type_get (wbuf_update obj b') = Inr wire_type"
    and s: "of_tlv16_wire_object_id_set T obj oid =
             (if wire_type = OF_EXPERIMENTER_TYPE
              then of_extension_object_id_set (wbuf_update obj b') oid
              else Inr (wbuf_update obj b'))"
    using tlv16_set_type_written [OF w len wt_def wt] by blast
  let ?o1 = "wbuf_update obj b'"
  have w1: "wbuf ?o1 = Some b'" and off1: "obj_offset ?o1 = obj_offset obj"
    by (simp_all add: wbuf_update_sel)
  have get_ext: "of_action_wire_object_id_get T obj' = extension_action_object_id_get obj'"
    if "of_tlv16_wire_type_get obj' = Inr OF_EXPERIMENTER_TYPE" for obj'
    using that by (simp add: of_action_wire_object_id_get_def)
  have same_type: "of_tlv16_wire_type_get (wbuf_update obj b2) = Inr OF_EXPERIMENTER_TYPE"
    if "wire_type = OF_EXPERIMENTER_TYPE" and "length b2 = length b'"
      and "buf_u16_get b2 (obj_offset obj) = buf_u16_get b' (obj_offset obj)" for b2
  proof -
    have "of_tlv16_wire_type_get (wbuf_update obj b2) =
            Inr (uint (word_of_int wire_type :: u16))"
      using that(2,3) len l r
      by (intro tlv16_type_get_bytes [where b = b2]) (simp_all add: wbuf_update_sel)
    then show ?thesis
      using wt that(1) by (simp add: uint_u16_of_int)
  qed
  have plain: "\<exists>obj'. of_tlv16_wire_object_id_set T obj oid = Inr obj' \<and>
                 of_action_wire_object_id_get T obj' = Inr oid"
    if "wire_type \<noteq> OF_EXPERIMENTER_TYPE"
  proof -
    from tab that have "wire_type < OF_ACTION_ITEM_COUNT T"
      "of_action_type_to_id T (version obj) wire_type = oid"
      by simp_all
    then have "of_action_wire_object_id_get T ?o1 = Inr oid"
      using that t wt(1) valid
      by (simp add: of_action_wire_object_id_get_def type_to_id_lookup_eq wbuf_update_sel)
    with s that show ?thesis by simp
  qed
  have bsn: "\<exists>obj'. of_tlv16_wire_object_id_set T obj oid = Inr obj' \<and>
               of_action_wire_object_id_get T obj' = Inr oid"
    if "wire_type = OF_EXPERIMENTER_TYPE \<and> obj_offset obj + 12 \<le> length b \<and>
        (oid = OF_ACTION_BSN_MIRROR \<or> oid = OF_ACTION_BSN_SET_TUNNEL_DST)"
  proof -
    from that have exp: "wire_type = OF_EXPERIMENTER_TYPE"
      and len1: "obj_offset ?o1 + 12 \<le> length b'"
      using l by (simp_all add: off1)
    from that obtain sub :: u32 where
      sub: "oid = OF_ACTION_BSN_MIRROR \<and> sub = 1 \<or> oid = OF_ACTION_BSN_SET_TUNNEL_DST \<and> sub = 2"
      by auto
    obtain b2 where set: "of_extension_object_id_set ?o1 oid = Inr (wbuf_update ?o1 b2)"
      and v: "buf_u32_get b2 (obj_offset obj + 4) = Inr OF_EXPERIMENTER_ID_BSN"
      and st: "buf_u32_get b2 (obj_offset obj + 8) = Inr sub"
      and l2: "length b2 = length b'"
      and ty: "buf_u16_get b2 (obj_offset obj) = buf_u16_get b' (obj_offset obj)"
      using of_extension_object_id_set_bsn [OF w1 len1 sub] unfolding off1 by blast
    let ?o2 = "wbuf_update obj b2"
    have "extension_action_object_id_get ?o2 = Inr oid"
      using sub extension_action_object_id_get_bsn [of ?o2 b2 sub] v st
      by (auto simp: wbuf_update_sel)
    then have "of_action_wire_object_id_get T ?o2 = Inr oid"
      using get_ext [OF same_type [OF exp l2 ty]] by simp
    moreover have "of_tlv16_wire_object_id_set T obj oid = Inr ?o2"
      using s exp set by (simp add: wbuf_update_twice)
    ultimately show ?thesis by blast
  qed
  have nicira: "\<exists>obj'. of_tlv16_wire_object_id_set T obj oid = Inr obj' \<and>
                  of_action_wire_object_id_get T obj' = Inr oid"
    if "wire_type = OF_EXPERIMENTER_TYPE \<and> obj_offset obj + 10 \<le> length b \<and>
        oid = OF_ACTION_NICIRA_DEC_TTL"
  proof -
    from that have exp: "wire_type = OF_EXPERIMENTER_TYPE"
      and len1: "obj_offset ?o1 + 10 \<le> length b'"
      and oid: "oid = OF_ACTION_NICIRA_DEC_TTL"
      using l by (simp_all add: off1)
    obtain b2 where
      set: "of_extension_object_id_set ?o1 OF_ACTION_NICIRA_DEC_TTL = Inr (wbuf_update ?o1 b2)"
      and v: "buf_u32_get b2 (obj_offset obj + 4) = Inr OF_EXPERIMENTER_ID_NICIRA"
      and st: "buf_u16_get b2 (obj_offset obj + 8) = Inr 18"
      and l2: "length b2 = length b'"
      and ty: "buf_u16_get b2 (obj_offset obj) = buf_u16_get b' (obj_offset obj)"
      using of_extension_object_id_set_nicira [OF w1 len1] unfolding off1 by blast
    let ?o2 = "wbuf_update obj b2"
    have "extension_action_object_id_get ?o2 = Inr oid"
      using oid extension_action_object_id_get_nicira [of ?o2 b2 18] v st
      by (simp add: wbuf_update_sel)
    then have "of_action_wire_object_id_get T ?o2 = Inr oid"
      using get_ext [OF same_type [OF exp l2 ty]] by simp
    moreover have "of_tlv16_wire_object_id_set T obj oid = Inr ?o2"
      using s exp set oid by (simp add: wbuf_update_twice)
    ultimately show ?thesis by blast
  qed
  have generic: "(\<exists>obj'. of_tlv16_wire_object_id_set T obj oid = Inr obj' \<and>
                    of_action_wire_object_id_get T obj' = Inr oid) \<longleftrightarrow>
                 extension_action_object_id_get obj = Inr OF_ACTION_EXPERIMENTER"
    if "wire_type = OF_EXPERIMENTER_TYPE \<and> oid = OF_ACTION_EXPERIMENTER"
  proof -
    from that have exp: "wire_type = OF_EXPERIMENTER_TYPE" and oid: "oid = OF_ACTION_EXPERIMENTER"
      by simp_all
    have "of_extension_object_id_set ?o1 oid = Inr ?o1"
      using oid by (simp add: of_extension_object_id_set_unfold [OF w1])
    then have set: "of_tlv16_wire_object_id_set T obj oid = Inr ?o1"
      using s exp by simp
    have "of_action_wire_object_id_get T ?o1 = extension_action_object_id_get ?o1"
      using get_ext [of ?o1] t exp by simp
    also have "\<dots> = extension_action_object_id_get obj"
      using w b' by (rule extension_action_object_id_get_frame)
    finally have get: "of_action_wire_object_id_get T ?o1 = extension_action_object_id_get obj" .
    show ?thesis
      using set get oid by auto
  qed
  from plain bsn nicira generic show ?thesis by blast
qed

theorem tlv16_set_action_get_roundtrip_witness:
  "action_map_consistent example_maps 4 OF_ACTION_BSN_MIRROR \<and>
   of_tlv16_wire_object_id_set example_maps
     (example_object [0, 0, 0, 16, 0, 0, 0, 0, 0, 0, 0, 0, 0, 0, 0, 0] 4 OF_ACTION_BSN_MIRROR)
     OF_ACTION_BSN_MIRROR
     = Inr (example_object example_mirror_bytes 4 OF_ACTION_BSN_MIRROR) \<and>
   of_action_wire_object_id_get example_maps
     (example_object example_mirror_bytes 4 OF_ACTION_BSN_MIRROR) = Inr OF_ACTION_BSN_MIRROR \<and>
   action_map_consistent example_maps 4 OF_ACTION_NICIRA_DEC_TTL \<and>
   of_tlv16_wire_object_id_set example_maps
     (example_object [0, 0, 0, 16, 9, 9, 9, 9, 9, 9] 4 OF_ACTION_NICIRA_DEC_TTL)
     OF_ACTION_NICIRA_DEC_TTL
     = Inr (example_object [0xff, 0xff, 0, 16, 0x00, 0x00, 0x23, 0x20, 0x00, 0x12] 4
             OF_ACTION_NICIRA_DEC_TTL) \<and>
   of_action_wire_object_id_get example_maps
     (example_object [0xff, 0xff, 0, 16, 0x00, 0x00, 0x23, 0x20, 0x00, 0x12] 4
        OF_ACTION_NICIRA_DEC_TTL) = Inr OF_ACTION_NICIRA_DEC_TTL \<and>
   action_map_consistent example_maps 4 OF_ACTION_EXPERIMENTER \<and>
   extension_action_object_id_get
     (example_object [0, 0, 0, 8, 0, 0, 0, 7] 4 OF_ACTION_EXPERIMENTER)
     = Inr OF_ACTION_EXPERIMENTER \<and>
   of_tlv16_wire_object_id_set example_maps
     (example_object [0, 0, 0, 8, 0, 0, 0, 7] 4 OF_ACTION_EXPERIMENTER) OF_ACTION_EXPERIMENTER
     = Inr (example_object [0xff, 0xff, 0, 8, 0, 0, 0, 7] 4 OF_ACTION_EXPERIMENTER) \<and>
   of_action_wire_object_id_get example_maps
     (example_object [0xff, 0xff, 0, 8, 0, 0, 0, 7] 4 OF_ACTION_EXPERIMENTER)
     = Inr OF_ACTION_EXPERIMENTER"
proof -
  note cdefs = action_map_consistent_def example_maps_def example_to_type_map_def
    OF_EXPERIMENTER_TYPE_def
  let ?z = "[0, 0, 0, 16, 0, 0, 0, 0, 0, 0, 0, 0, 0, 0, 0, 0] :: of_wire_buffer_t"
  let ?n = "[0, 0, 0, 16, 9, 9, 9, 9, 9, 9] :: of_wire_buffer_t"
  let ?g = "[0, 0, 0, 8, 0, 0, 0, 7] :: of_wire_buffer_t"
  let ?om = "example_object ?z 4 OF_ACTION_BSN_MIRROR"
  let ?on = "example_object ?n 4 OF_ACTION_NICIRA_DEC_TTL"
  let ?og = "example_object ?g 4 OF_ACTION_EXPERIMENTER"
  have cm: "action_map_consistent example_maps 4 OF_ACTION_BSN_MIRROR"
    and cn: "action_map_consistent example_maps 4 OF_ACTION_NICIRA_DEC_TTL"
    and cg: "action_map_consistent example_maps 4 OF_ACTION_EXPERIMENTER"
    by (simp_all add: cdefs)
  have sm: "of_tlv16_wire_object_id_set example_maps ?om OF_ACTION_BSN_MIRROR
            = Inr (example_object example_mirror_bytes 4 OF_ACTION_BSN_MIRROR)"
    by (simp add: tlv16_eval_defs)
  have sn: "of_tlv16_wire_object_id_set example_maps ?on OF_ACTION_NICIRA_DEC_TTL
            = Inr (example_object [0xff, 0xff, 0, 16, 0x00, 0x00, 0x23, 0x20, 0x00, 0x12] 4
                    OF_ACTION_NICIRA_DEC_TTL)"
    by (simp add: tlv16_eval_defs)
  have sg: "of_tlv16_wire_object_id_set example_maps ?og OF_ACTION_EXPERIMENTER
            = Inr (example_object [0xff, 0xff, 0, 8, 0, 0, 0, 7] 4 OF_ACTION_EXPERIMENTER)"
    by (simp add: tlv16_eval_defs)
  have eg: "extension_action_object_id_get ?og = Inr OF_ACTION_EXPERIMENTER"
    by (simp add: tlv16_eval_defs)
  have tm: "of_object_to_type_map example_maps 4 OF_ACTION_BSN_MIRROR = OF_EXPERIMENTER_TYPE"
    and tn: "of_object_to_type_map example_maps 4 OF_ACTION_NICIRA_DEC_TTL = OF_EXPERIMENTER_TYPE"
    and tg: "of_object_to_type_map example_maps 4 OF_ACTION_EXPERIMENTER = OF_EXPERIMENTER_TYPE"
    by (simp_all add: cdefs)
  have gm: "of_action_wire_object_id_get example_maps
              (example_object example_mirror_bytes 4 OF_ACTION_BSN_MIRROR)
            = Inr OF_ACTION_BSN_MIRROR"
  proof -
    have "\<exists>obj'. of_tlv16_wire_object_id_set example_maps ?om OF_ACTION_BSN_MIRROR = Inr obj' \<and>
            of_action_wire_object_id_get example_maps obj' = Inr OF_ACTION_BSN_MIRROR"
      using tlv16_set_action_get_roundtrip
        [of ?om ?z example_maps OF_ACTION_BSN_MIRROR OF_EXPERIMENTER_TYPE,
         THEN conjunct2, THEN conjunct1] cm tm
      by (simp add: example_object_def)
    with sm show ?thesis by simp
  qed
  have gn: "of_action_wire_object_id_get example_maps
              (example_object [0xff, 0xff, 0, 16, 0x00, 0x00, 0x23, 0x20, 0x00, 0x12] 4
                 OF_ACTION_NICIRA_DEC_TTL)
            = Inr OF_ACTION_NICIRA_DEC_TTL"
  proof -
    have "\<exists>obj'. of_tlv16_wire_object_id_set example_maps ?on OF_ACTION_NICIRA_DEC_TTL = Inr obj' \<and>
            of_action_wire_object_id_get example_maps obj' = Inr OF_ACTION_NICIRA_DEC_TTL"
      using tlv16_set_action_get_roundtrip
        [of ?on ?n example_maps OF_ACTION_NICIRA_DEC_TTL OF_EXPERIMENTER_TYPE,
         THEN conjunct2, THEN conjunct2, THEN conjunct1] cn tn
      by (simp add: example_object_def)
    with sn show ?thesis by simp
  qed
  have gg: "of_action_wire_object_id_get example_maps
              (example_object [0xff, 0xff, 0, 8, 0, 0, 0, 7] 4 OF_ACTION_EXPERIMENTER)
            = Inr OF_ACTION_EXPERIMENTER"
  proof -
    have "\<exists>obj'. of_tlv16_wire_object_id_set example_maps ?og OF_ACTION_EXPERIMENTER = Inr obj' \<and>
            of_action_wire_object_id_get example_maps obj' = Inr OF_ACTION_EXPERIMENTER"
      using tlv16_set_action_get_roundtrip
        [of ?og ?g example_maps OF_ACTION_EXPERIMENTER OF_EXPERIMENTER_TYPE,
         THEN conjunct2, THEN conjunct2, THEN conjunct2] cg tg eg
      by (simp add: example_object_def)
    with sg show ?thesis by simp
  qed
  from cm sm gm cn sn gn cg eg sg gg show ?thesis by simp
qed

end
